theory Spec2Isabelle
  imports Main "HOL-Library.Word"
begin

section \<open>Order fulfilment workflow of the inventory microservices\<close>

text \<open>
  The order service (\<^verbatim>\<open>createOrder\<close>, \<^verbatim>\<open>createBulkOrder\<close>, \<^verbatim>\<open>getProductInfo\<close>,
  \<^verbatim>\<open>updateProductStock\<close>, \<^verbatim>\<open>publishEvent\<close>) and the inventory service's
  \<^verbatim>\<open>updateProduct\<close> handler, as Go writes them.

  Go's \<^verbatim>\<open>int\<close> is a 64-bit two's complement word: \<open>-\<close> wraps and \<open><\<close> is the signed
  comparison \<open><s\<close>. Go's \<^verbatim>\<open>float64\<close> is kept abstract: it is a type parameter \<open>'f\<close>, and
  what is done with such values (the product \<^verbatim>\<open>a * b\<close>, the conversion \<^verbatim>\<open>float64(n)\<close>, and
  storing one in a column \<^verbatim>\<open>DECIMAL(10, 2)\<close>, which keeps it rounded to two decimals) are
  the fields of a record passed to the handlers, so nothing is assumed about rounding.
  The IEEE doubles themselves are a second instance, given further down.

  Everything outside the process (the inventory service reached over HTTP, the orders
  database, the Kafka writer, the clock) answers through an environment record. A loop
  that makes one call per item asks the environment with the item's index, so the
  \<open>k\<close>-th answer does not depend on the earlier ones and may be any value of its type.
  The Prometheus counters are not modelled. An insert that the database refuses (a value
  out of the column's range, a lost connection) is an error reply of the environment.
\<close>

subsection \<open>Data\<close>

type_synonym int64 = "64 word"
type_synonym instant = int

text \<open>
  \<open>fmul\<close> is \<^verbatim>\<open>a * b\<close> on \<^verbatim>\<open>float64\<close>, \<open>float64\<close> the conversion from \<^verbatim>\<open>int\<close>, and
  \<open>decimal x\<close> the value read back from a column \<^verbatim>\<open>DECIMAL(10, 2)\<close> in which \<open>x\<close> was
  stored.
\<close>

record 'f float_ops =
  fmul :: "'f \<Rightarrow> 'f \<Rightarrow> 'f"
  float64 :: "int64 \<Rightarrow> 'f"
  decimal :: "'f \<Rightarrow> 'f"

text \<open>\<^verbatim>\<open>type Order struct\<close>; a row of the table \<^verbatim>\<open>orders\<close> has the same columns.\<close>

record 'f Order =
  ID :: int64
  UserID :: int64
  ProductID :: int64
  Quantity :: int64
  TotalPrice :: 'f
  Status :: string
  CreatedAt :: instant

text \<open>\<^verbatim>\<open>type Product struct\<close> of the order service: the snapshot read from the inventory.\<close>

record 'f Product =
  Product_ID :: int64
  Name :: string
  Price :: 'f
  Stock :: int64

text \<open>The anonymous request struct of \<^verbatim>\<open>createOrder\<close>.\<close>

record orderReq =
  req_ProductID :: int64
  req_Quantity :: int64
  req_UserID :: int64

text \<open>One element of \<^verbatim>\<open>BulkOrderRequest.Items\<close>.\<close>

record Item =
  item_ProductID :: int64
  item_Quantity :: int64

text \<open>\<^verbatim>\<open>type ValidatedItem struct\<close>, local to \<^verbatim>\<open>createBulkOrder\<close>.\<close>

record 'f ValidatedItem =
  v_ProductID :: int64
  v_Quantity :: int64
  v_Product :: "'f Product"

text \<open>The map \<^verbatim>\<open>updateData\<close> that \<^verbatim>\<open>updateProductStock\<close> sends, by JSON key.\<close>

record 'f updateData =
  name :: string
  description :: string
  price :: 'f
  stock :: int64

text \<open>The map \<^verbatim>\<open>event\<close> handed to \<^verbatim>\<open>publishEvent\<close>, by JSON key.\<close>

record 'f event =
  event_type :: string
  order_id :: int64
  product_id :: int64
  quantity :: int64
  total_price :: 'f
  timestamp :: int64

text \<open>
  The parameters of an \<^verbatim>\<open>INSERT INTO orders\<close>, and the row that the table then holds. The
  bulk statement names no \<^verbatim>\<open>user_id\<close>: the column then takes its default, 0. The
  column \<^verbatim>\<open>total_price\<close> is \<^verbatim>\<open>DECIMAL(10, 2)\<close>: it keeps the price rounded.
\<close>

record 'f insert_params =
  ip_product_id :: int64
  ip_quantity :: int64
  ip_total_price :: 'f
  ip_status :: string
  ip_user_id :: "int64 option"

definition db_row :: "'f float_ops \<Rightarrow> 'f insert_params \<Rightarrow> int64 \<Rightarrow> instant \<Rightarrow> 'f Order" where
  "db_row fl p i t =
     \<lparr>ID = i,
      UserID = (case ip_user_id p of None \<Rightarrow> 0 | Some u \<Rightarrow> u),
      ProductID = ip_product_id p,
      Quantity = ip_quantity p,
      TotalPrice = decimal fl (ip_total_price p),
      Status = ip_status p,
      CreatedAt = t\<rparr>"

subsection \<open>The environment\<close>

text \<open>
  What \<^verbatim>\<open>httpClient.Get\<close> gives: an error, or a status code with the body as
  \<^verbatim>\<open>json.Decode\<close> reads it into a \<^verbatim>\<open>Product\<close>.
\<close>

datatype 'f get_reply = GetErr string | GetResp nat "string + 'f Product"

text \<open>
  What happens to the PUT of \<^verbatim>\<open>updateProductStock\<close>: \<^verbatim>\<open>json.Marshal\<close> fails,
  \<^verbatim>\<open>http.NewRequest\<close> fails, \<^verbatim>\<open>httpClient.Do\<close> fails, or a status code and a body come
  back.
\<close>

datatype put_reply =
  PutMarshalErr string | PutRequestErr string | PutErr string | PutResp nat string

datatype pub_reply = MarshalErr string | WriteErr string | Written

record 'f env =
  inv_get :: "nat \<Rightarrow> int64 \<Rightarrow> 'f get_reply"
  inv_put :: "nat \<Rightarrow> int64 \<Rightarrow> 'f updateData \<Rightarrow> put_reply"
  db_insert :: "nat \<Rightarrow> 'f insert_params \<Rightarrow> string + (int64 \<times> instant)"
  db_begin :: "string option"
  db_commit :: "string option"
  kafka :: "nat \<Rightarrow> 'f event \<Rightarrow> pub_reply"
  clock :: "nat \<Rightarrow> int64"

subsection \<open>The state of the order service\<close>

datatype 'f call =
  Call_getProductInfo int64
  | Call_insert "'f insert_params"
  | Call_Begin
  | Call_tx_insert "'f insert_params"
  | Call_Commit
  | Call_Rollback
  | Call_updateProductStock int64 "'f Product" int64
  | Call_publishEvent "'f event"

datatype 'f log_line =
  Log_update_failed string
  | Log_update_failed_for int64 string
  | Log_insert_failed int64 string
  | Log_commit_failed string
  | Log_marshal_failed string
  | Log_publish_failed string
  | Log_published "'f event"

text \<open>
  \<open>orders\<close> is the committed content of the table, \<open>tx\<close> the rows written by the open
  transaction (if one is open), \<open>calls\<close> the calls made so far, oldest first, and \<open>logs\<close>
  the lines printed by \<^verbatim>\<open>log.Printf\<close>.
\<close>

record 'f sys =
  orders :: "'f Order list"
  tx :: "'f Order list option"
  calls :: "'f call list"
  logs :: "'f log_line list"

definition called :: "'f call \<Rightarrow> 'f sys \<Rightarrow> 'f sys" where
  "called c s = s\<lparr>calls := calls s @ [c]\<rparr>"

definition logged :: "'f log_line \<Rightarrow> 'f sys \<Rightarrow> 'f sys" where
  "logged l s = s\<lparr>logs := logs s @ [l]\<rparr>"

subsection \<open>HTTP responses\<close>

datatype 'f body = Text string | OrderJSON "'f Order" | OrdersJSON "'f Order list"

record 'f response =
  status :: nat
  body :: "'f body"

text \<open>\<^verbatim>\<open>http.Error(w, msg, code)\<close> writes the message and a newline.\<close>

definition http_Error :: "string \<Rightarrow> nat \<Rightarrow> 'f response" where
  "http_Error msg code = \<lparr>status = code, body = Text (msg @ [CHR 0x0A])\<rparr>"

abbreviation StatusOK :: nat where "StatusOK \<equiv> 200"
abbreviation StatusCreated :: nat where "StatusCreated \<equiv> 201"
abbreviation StatusBadRequest :: nat where "StatusBadRequest \<equiv> 400"
abbreviation StatusNotFound :: nat where "StatusNotFound \<equiv> 404"
abbreviation StatusInternalServerError :: nat where "StatusInternalServerError \<equiv> 500"

subsection \<open>Printing an integer (\<^verbatim>\<open>%d\<close>)\<close>

fun show_nat :: "nat \<Rightarrow> string" where
  "show_nat n =
     (if n < 10 then [''0123456789'' ! n]
      else show_nat (n div 10) @ [''0123456789'' ! (n mod 10)])"

declare show_nat.simps [simp del]

definition show_int :: "int \<Rightarrow> string" where
  "show_int i = (if i < 0 then CHR ''-'' # show_nat (nat (- i)) else show_nat (nat i))"

subsection \<open>The inventory client\<close>

text \<open>\<^verbatim>\<open>getProductInfo\<close>, on the reply to its GET.\<close>

definition product_of_reply :: "'f get_reply \<Rightarrow> string + 'f Product" where
  "product_of_reply r =
     (case r of
        GetErr e \<Rightarrow> Inl e
      | GetResp code b \<Rightarrow>
          if code \<noteq> StatusOK then Inl ''product not found''
          else (case b of Inl e \<Rightarrow> Inl e | Inr product \<Rightarrow> Inr product))"

definition getProductInfo ::
  "'f env \<Rightarrow> nat \<Rightarrow> int64 \<Rightarrow> 'f sys \<Rightarrow> (string + 'f Product) \<times> 'f sys" where
  "getProductInfo e k productID s =
     (product_of_reply (inv_get e k productID), called (Call_getProductInfo productID) s)"

text \<open>
  \<^verbatim>\<open>updateProductStock\<close>: the body it sends, and what it returns on each reply. The
  request goes through \<open>send\<close>, which stands for \<^verbatim>\<open>httpClient.Do\<close> and the service behind
  it: given the product id of the URL and the body, it gives the reply and whatever the
  request has left behind at the other end. In the workflows the other end is the
  environment (\<open>to_env\<close>), and there is nothing left behind to look at.
\<close>

definition update_data :: "'f Product \<Rightarrow> int64 \<Rightarrow> 'f updateData" where
  "update_data product newStock =
     \<lparr>name = Name product, description = '''', price = Price product, stock = newStock\<rparr>"

definition error_of_reply :: "put_reply \<Rightarrow> string option" where
  "error_of_reply r =
     (case r of
        PutMarshalErr e \<Rightarrow> Some e
      | PutRequestErr e \<Rightarrow> Some e
      | PutErr e \<Rightarrow> Some e
      | PutResp code bodyBytes \<Rightarrow>
          if code \<noteq> StatusOK then Some (''failed to update stock: '' @ bodyBytes) else None)"

definition updateProductStock ::
  "(int64 \<Rightarrow> 'f updateData \<Rightarrow> 'r \<times> put_reply) \<Rightarrow> int64 \<Rightarrow> 'f Product \<Rightarrow> int64 \<Rightarrow> 'f sys \<Rightarrow>
     (string option \<times> 'r) \<times> 'f sys" where
  "updateProductStock send productID product newStock s =
     (case send productID (update_data product newStock) of
        (r, reply) \<Rightarrow>
          ((error_of_reply reply, r),
           called (Call_updateProductStock productID product newStock) s))"

definition to_env :: "'f env \<Rightarrow> nat \<Rightarrow> int64 \<Rightarrow> 'f updateData \<Rightarrow> unit \<times> put_reply" where
  "to_env e k productID d = ((), inv_put e k productID d)"

subsection \<open>The event publisher\<close>

definition publishEvent :: "'f env \<Rightarrow> nat \<Rightarrow> 'f event \<Rightarrow> 'f sys \<Rightarrow> 'f sys" where
  "publishEvent e k ev s =
     (let s1 = called (Call_publishEvent ev) s in
      case kafka e k ev of
        MarshalErr err \<Rightarrow> logged (Log_marshal_failed err) s1
      | WriteErr err \<Rightarrow> logged (Log_publish_failed err) s1
      | Written \<Rightarrow> logged (Log_published ev) s1)"

definition order_created :: "'f env \<Rightarrow> nat \<Rightarrow> 'f Order \<Rightarrow> 'f event" where
  "order_created e k order =
     \<lparr>event_type = ''order_created'',
      order_id = ID order,
      product_id = ProductID order,
      quantity = Quantity order,
      total_price = TotalPrice order,
      timestamp = clock e k\<rparr>"

subsection \<open>The single-item workflow\<close>

text \<open>
  \<^verbatim>\<open>createOrder\<close>. The request body is given as \<^verbatim>\<open>json.Decode\<close> reads it: an error
  or the request struct.
\<close>

definition createOrder ::
  "'f float_ops \<Rightarrow> 'f env \<Rightarrow> string + orderReq \<Rightarrow> 'f sys \<Rightarrow> 'f sys \<times> 'f response" where
  "createOrder fl e decoded s =
     (case decoded of
        Inl err \<Rightarrow> (s, http_Error err StatusBadRequest)
      | Inr r \<Rightarrow>
          (case getProductInfo e 0 (req_ProductID r) s of
             (Inl err, s1) \<Rightarrow>
               (s1, http_Error (''Failed to fetch product info: '' @ err)
                      StatusInternalServerError)
           | (Inr product, s1) \<Rightarrow>
               if Stock product <s req_Quantity r
               then (s1, http_Error ''Insufficient stock'' StatusBadRequest)
               else
                 let totalPrice = fmul fl (Price product) (float64 fl (req_Quantity r));
                     params = \<lparr>ip_product_id = req_ProductID r,
                               ip_quantity = req_Quantity r,
                               ip_total_price = totalPrice,
                               ip_status = ''confirmed'',
                               ip_user_id = Some (req_UserID r)\<rparr>;
                     s2 = called (Call_insert params) s1
                 in (case db_insert e 0 params of
                       Inl err \<Rightarrow> (s2, http_Error err StatusInternalServerError)
                     | Inr (i, t) \<Rightarrow>
                         let s3 = s2\<lparr>orders := orders s2 @ [db_row fl params i t]\<rparr>;
                             order = \<lparr>ID = i,
                                      UserID = req_UserID r,
                                      ProductID = req_ProductID r,
                                      Quantity = req_Quantity r,
                                      TotalPrice = totalPrice,
                                      Status = ''confirmed'',
                                      CreatedAt = t\<rparr>;
                             newStock = Stock product - req_Quantity r;
                             ((err, u), s4) = updateProductStock (to_env e 0) (req_ProductID r)
                                                product newStock s3;
                             s5 = (case err of
                                     Some msg \<Rightarrow> logged (Log_update_failed msg) s4
                                   | None \<Rightarrow> s4);
                             s6 = publishEvent e 0 (order_created e 0 order) s5
                         in (s6, \<lparr>status = StatusCreated, body = OrderJSON order\<rparr>))))"

subsection \<open>The transaction of the bulk workflow\<close>

text \<open>
  \<^verbatim>\<open>db.Begin\<close>, \<^verbatim>\<open>tx.QueryRow(INSERT ...)\<close>, \<^verbatim>\<open>tx.Commit\<close> and \<^verbatim>\<open>tx.Rollback\<close>. Rows
  written in the transaction are kept apart from the table until the commit; a rollback,
  or a commit that fails, drops them. On a transaction that is over, each of them does
  nothing but return \<^verbatim>\<open>sql.ErrTxDone\<close>.
\<close>

definition ErrTxDone :: string where
  "ErrTxDone = ''sql: transaction has already been committed or rolled back''"

definition db_Begin :: "'f env \<Rightarrow> 'f sys \<Rightarrow> string option \<times> 'f sys" where
  "db_Begin e s =
     (case db_begin e of
        Some err \<Rightarrow> (Some err, called Call_Begin s)
      | None \<Rightarrow> (None, (called Call_Begin s)\<lparr>tx := Some []\<rparr>))"

definition tx_insert ::
  "'f float_ops \<Rightarrow> 'f env \<Rightarrow> nat \<Rightarrow> 'f insert_params \<Rightarrow> 'f sys \<Rightarrow>
     (string + (int64 \<times> instant)) \<times> 'f sys" where
  "tx_insert fl e k params s =
     (let s1 = called (Call_tx_insert params) s in
      case tx s1 of
        None \<Rightarrow> (Inl ErrTxDone, s1)
      | Some pending \<Rightarrow>
          (case db_insert e k params of
             Inl err \<Rightarrow> (Inl err, s1)
           | Inr (i, t) \<Rightarrow> (Inr (i, t), s1\<lparr>tx := Some (pending @ [db_row fl params i t])\<rparr>)))"

definition tx_Commit :: "'f env \<Rightarrow> 'f sys \<Rightarrow> string option \<times> 'f sys" where
  "tx_Commit e s =
     (let s1 = called Call_Commit s in
      case tx s1 of
        None \<Rightarrow> (Some ErrTxDone, s1)
      | Some pending \<Rightarrow>
          (case db_commit e of
             Some err \<Rightarrow> (Some err, s1\<lparr>tx := None\<rparr>)
           | None \<Rightarrow> (None, s1\<lparr>orders := orders s1 @ pending, tx := None\<rparr>)))"

definition tx_Rollback :: "'f sys \<Rightarrow> 'f sys" where
  "tx_Rollback s = (called Call_Rollback s)\<lparr>tx := None\<rparr>"

subsection \<open>The bulk workflow\<close>

text \<open>
  The three loops of \<^verbatim>\<open>createBulkOrder\<close>, each over the list paired with its indices
  (\<^verbatim>\<open>for i, x := range xs\<close>). A loop that returns from the handler gives the response
  it wrote as \<open>Inl\<close>.
\<close>

fun validation_phase ::
  "'f env \<Rightarrow> (nat \<times> Item) list \<Rightarrow> 'f ValidatedItem list \<Rightarrow> 'f sys \<Rightarrow>
     ('f response + 'f ValidatedItem list) \<times> 'f sys" where
  "validation_phase e [] validatedItems s = (Inr validatedItems, s)"
| "validation_phase e ((k, item) # rest) validatedItems s =
     (case getProductInfo e k (item_ProductID item) s of
        (Inl err, s1) \<Rightarrow>
          (Inl (http_Error (''Failed to fetch product '' @ show_int (sint (item_ProductID item))
                              @ '': '' @ err) StatusBadRequest), s1)
      | (Inr product, s1) \<Rightarrow>
          if Stock product <s item_Quantity item
          then (Inl (http_Error (''Insufficient stock for product ''
                                   @ show_int (sint (item_ProductID item))) StatusBadRequest), s1)
          else validation_phase e rest
                 (validatedItems @ [\<lparr>v_ProductID = item_ProductID item,
                                     v_Quantity = item_Quantity item,
                                     v_Product = product\<rparr>]) s1)"

fun transaction_phase ::
  "'f float_ops \<Rightarrow> 'f env \<Rightarrow> (nat \<times> 'f ValidatedItem) list \<Rightarrow> 'f Order list \<Rightarrow> 'f sys \<Rightarrow>
     ('f response + 'f Order list) \<times> 'f sys" where
  "transaction_phase fl e [] createdOrders s = (Inr createdOrders, s)"
| "transaction_phase fl e ((k, item) # rest) createdOrders s =
     (let totalPrice = fmul fl (Price (v_Product item)) (float64 fl (v_Quantity item));
          params = \<lparr>ip_product_id = v_ProductID item,
                    ip_quantity = v_Quantity item,
                    ip_total_price = totalPrice,
                    ip_status = ''confirmed'',
                    ip_user_id = None\<rparr>
      in case tx_insert fl e k params s of
           (Inl err, s1) \<Rightarrow>
             (Inl (http_Error ''Internal Server Error'' StatusInternalServerError),
              logged (Log_insert_failed (v_ProductID item) err) s1)
         | (Inr (i, t), s1) \<Rightarrow>
             transaction_phase fl e rest
               (createdOrders @ [\<lparr>ID = i,
                                  UserID = 0,
                                  ProductID = v_ProductID item,
                                  Quantity = v_Quantity item,
                                  TotalPrice = totalPrice,
                                  Status = ''confirmed'',
                                  CreatedAt = t\<rparr>]) s1)"

text \<open>
  The external phase reads \<^verbatim>\<open>validatedItems[i]\<close>: out of range Go panics, and the
  loop stops there (\<open>False\<close>).
\<close>

fun external_phase ::
  "'f env \<Rightarrow> 'f ValidatedItem list \<Rightarrow> (nat \<times> 'f Order) list \<Rightarrow> 'f sys \<Rightarrow> bool \<times> 'f sys" where
  "external_phase e validatedItems [] s = (True, s)"
| "external_phase e validatedItems ((i, order) # rest) s =
     (if i < length validatedItems then
        let item = validatedItems ! i;
            newStock = Stock (v_Product item) - v_Quantity item;
            ((err, u), s1) = updateProductStock (to_env e i) (v_ProductID item) (v_Product item)
                               newStock s;
            s2 = (case err of
                    Some msg \<Rightarrow> logged (Log_update_failed_for (v_ProductID item) msg) s1
                  | None \<Rightarrow> s1);
            s3 = publishEvent e i (order_created e i order) s2
        in external_phase e validatedItems rest s3
      else (False, s))"

text \<open>
  \<^verbatim>\<open>createBulkOrder\<close> from \<^verbatim>\<open>defer tx.Rollback()\<close> on; the deferred call runs when
  this part is left, however it is left. No response (\<open>None\<close>) means the handler panicked.
\<close>

definition bulk_in_tx ::
  "'f float_ops \<Rightarrow> 'f env \<Rightarrow> 'f ValidatedItem list \<Rightarrow> 'f sys \<Rightarrow> 'f sys \<times> 'f response option" where
  "bulk_in_tx fl e validatedItems s =
     (case transaction_phase fl e (List.enumerate 0 validatedItems) [] s of
        (Inl resp, s1) \<Rightarrow> (s1, Some resp)
      | (Inr createdOrders, s1) \<Rightarrow>
          (case tx_Commit e s1 of
             (Some err, s2) \<Rightarrow>
               (logged (Log_commit_failed err) s2,
                Some (http_Error ''Internal Server Error'' StatusInternalServerError))
           | (None, s2) \<Rightarrow>
               (case external_phase e validatedItems (List.enumerate 0 createdOrders) s2 of
                  (False, s3) \<Rightarrow> (s3, None)
                | (True, s3) \<Rightarrow>
                    (s3, Some \<lparr>status = StatusCreated, body = OrdersJSON createdOrders\<rparr>))))"

definition createBulkOrder ::
  "'f float_ops \<Rightarrow> 'f env \<Rightarrow> string + Item list \<Rightarrow> 'f sys \<Rightarrow> 'f sys \<times> 'f response option" where
  "createBulkOrder fl e decoded s =
     (case decoded of
        Inl err \<Rightarrow> (s, Some (http_Error err StatusBadRequest))
      | Inr items \<Rightarrow>
          (case validation_phase e (List.enumerate 0 items) [] s of
             (Inl resp, s1) \<Rightarrow> (s1, Some resp)
           | (Inr validatedItems, s1) \<Rightarrow>
               (case db_Begin e s1 of
                  (Some err, s2) \<Rightarrow>
                    (s2, Some (http_Error ''Failed to start transaction''
                                 StatusInternalServerError))
                | (None, s2) \<Rightarrow>
                    (case bulk_in_tx fl e validatedItems s2 of
                       (s3, resp) \<Rightarrow> (tx_Rollback s3, resp)))))"

subsection \<open>The inventory service: \<^verbatim>\<open>updateProduct\<close>\<close>

text \<open>
  \<^verbatim>\<open>type Product struct\<close> of the inventory service; a row of its table \<^verbatim>\<open>products\<close>
  has the same columns.
\<close>

record 'f inv_Product =
  inv_ID :: int
  inv_Name :: string
  inv_Description :: string
  inv_Price :: 'f
  inv_Stock :: int64
  inv_CreatedAt :: instant

record inv_event =
  ie_event_type :: string
  ie_product_id :: int
  ie_name :: string
  ie_stock :: int64

datatype inv_body = Plain string | Message string

record inv_response =
  inv_status :: nat
  inv_body :: inv_body

definition inv_Error :: "string \<Rightarrow> nat \<Rightarrow> inv_response" where
  "inv_Error msg code = \<lparr>inv_status = code, inv_body = Plain (msg @ [CHR 0x0A])\<rparr>"

text \<open>
  \<^verbatim>\<open>UPDATE products SET name = $1, description = $2, price = $3, stock = $4 WHERE id = $5\<close>
  and the number of rows it changed.
\<close>

definition sql_update ::
  "'f inv_Product \<Rightarrow> int \<Rightarrow> 'f inv_Product list \<Rightarrow> 'f inv_Product list \<times> nat" where
  "sql_update p i products =
     (map (\<lambda>row. if inv_ID row = i
                  then row\<lparr>inv_Name := inv_Name p, inv_Description := inv_Description p,
                           inv_Price := inv_Price p, inv_Stock := inv_Stock p\<rparr>
                  else row) products,
      length (filter (\<lambda>row. inv_ID row = i) products))"

text \<open>
  The handler, on the table \<open>products\<close>. \<open>i\<close> is the path variable \<^verbatim>\<open>id\<close>, as the integer
  its digits denote; \<open>decoded\<close> is the request body as \<^verbatim>\<open>json.Decode\<close> reads it;
  \<open>exec_err\<close> is the error of \<^verbatim>\<open>db.Exec\<close>, if it fails. The result is the table, the events
  handed to \<^verbatim>\<open>publishEvent\<close> (without their timestamps) and the response.
\<close>

definition updateProduct ::
  "string option \<Rightarrow> 'f inv_Product list \<Rightarrow> int \<Rightarrow> string + 'f inv_Product \<Rightarrow>
     'f inv_Product list \<times> inv_event list \<times> inv_response" where
  "updateProduct exec_err products i decoded =
     (case decoded of
        Inl err \<Rightarrow> (products, [], inv_Error err StatusBadRequest)
      | Inr p \<Rightarrow>
          (case exec_err of
             Some err \<Rightarrow> (products, [], inv_Error err StatusInternalServerError)
           | None \<Rightarrow>
               (case sql_update p i products of
                  (products', rowsAffected) \<Rightarrow>
                    if rowsAffected = 0
                    then (products', [], inv_Error ''Product not found'' StatusNotFound)
                    else
                      (products',
                       \<lparr>ie_event_type = ''product_updated'', ie_product_id = i,
                         ie_name = inv_Name p, ie_stock = inv_Stock p\<rparr>
                       # (if inv_Stock p <s 10
                          then [\<lparr>ie_event_type = ''low_stock_alert'', ie_product_id = i,
                                  ie_name = inv_Name p, ie_stock = inv_Stock p\<rparr>]
                          else []),
                       \<lparr>inv_status = StatusOK,
                         inv_body = Message ''Product updated successfully''\<rparr>))))"

text \<open>
  The PUT of \<^verbatim>\<open>updateProductStock\<close> when the inventory service answers it: the JSON object
  with the keys \<^verbatim>\<open>name\<close>, \<^verbatim>\<open>description\<close>, \<^verbatim>\<open>price\<close>, \<^verbatim>\<open>stock\<close> is decoded into the
  inventory's \<^verbatim>\<open>Product\<close> (the other fields stay zero), and the client reads the status
  code and the body.
\<close>

definition decode_updateData :: "'f updateData \<Rightarrow> 'f inv_Product" where
  "decode_updateData d =
     \<lparr>inv_ID = 0, inv_Name = name d, inv_Description = description d,
      inv_Price = price d, inv_Stock = stock d, inv_CreatedAt = 0\<rparr>"

text \<open>\<^verbatim>\<open>json.NewEncoder(w).Encode(map[string]string{"message": m})\<close>, for a plain message.\<close>

definition json_message :: "string \<Rightarrow> string" where
  "json_message m =
     ''{'' @ [CHR 0x22] @ ''message'' @ [CHR 0x22] @ '':'' @ [CHR 0x22] @ m @ [CHR 0x22]
       @ ''}'' @ [CHR 0x0A]"

definition body_bytes :: "inv_body \<Rightarrow> string" where
  "body_bytes b = (case b of Plain t \<Rightarrow> t | Message m \<Rightarrow> json_message m)"

definition inventory_put ::
  "string option \<Rightarrow> 'f inv_Product list \<Rightarrow> int64 \<Rightarrow> 'f updateData \<Rightarrow>
     'f inv_Product list \<times> put_reply" where
  "inventory_put exec_err products productID d =
     (case updateProduct exec_err products (sint productID) (Inr (decode_updateData d)) of
        (products', evs, resp) \<Rightarrow>
          (products', PutResp (inv_status resp) (body_bytes (inv_body resp))))"

subsection \<open>Vocabulary for the statements\<close>

text \<open>
  Closed forms of what the loops of \<^verbatim>\<open>createBulkOrder\<close> compute, for a line \<open>item\<close> at
  index \<open>k\<close> of the request, given as the pair \<open>(k, item)\<close>:
  \<^item> \<open>snapshot\<close> is what \<^verbatim>\<open>getProductInfo\<close> returns for the line, \<open>item_ok\<close> says that
    the line passes validation (the fetch succeeds and the stock is not below the
    quantity), \<open>rejection\<close> is the response written for a line that does not, and
    \<open>validated\<close> is the \<^verbatim>\<open>ValidatedItem\<close> appended for a line that does;
  \<^item> \<open>bulk_params\<close> are the parameters of the insert for a validated line, \<open>insert_ok\<close>
    says that the database accepts it, \<open>created\<close> is the \<^verbatim>\<open>Order\<close> the loop then
    appends to \<^verbatim>\<open>createdOrders\<close>, and \<open>inserted\<close> is the row written;
  \<^item> \<open>get_call\<close>, \<open>insert_call\<close>, \<open>ext_calls\<close> and \<open>ext_logs\<close> are the calls made and the
    lines logged for one line in the three phases;
  \<^item> \<open>validatedItems\<close>, \<open>createdOrders\<close>, \<open>insertedRows\<close>, \<open>all_valid\<close> and
    \<open>all_inserted\<close> put the lines of a request together, and \<open>in_tx\<close> is the state in which
    the transaction starts.
\<close>

definition snapshot :: "'f env \<Rightarrow> nat \<times> Item \<Rightarrow> string + 'f Product" where
  "snapshot e ki = product_of_reply (inv_get e (fst ki) (item_ProductID (snd ki)))"

definition item_ok :: "'f env \<Rightarrow> nat \<times> Item \<Rightarrow> bool" where
  "item_ok e ki =
     (case snapshot e ki of Inl err \<Rightarrow> False | Inr p \<Rightarrow> \<not> Stock p <s item_Quantity (snd ki))"

definition rejection :: "'f env \<Rightarrow> nat \<times> Item \<Rightarrow> 'f response" where
  "rejection e ki =
     (case snapshot e ki of
        Inl err \<Rightarrow>
          http_Error (''Failed to fetch product '' @ show_int (sint (item_ProductID (snd ki)))
                        @ '': '' @ err) StatusBadRequest
      | Inr p \<Rightarrow>
          http_Error (''Insufficient stock for product ''
                        @ show_int (sint (item_ProductID (snd ki)))) StatusBadRequest)"

definition validated :: "'f env \<Rightarrow> nat \<times> Item \<Rightarrow> 'f ValidatedItem" where
  "validated e ki =
     \<lparr>v_ProductID = item_ProductID (snd ki), v_Quantity = item_Quantity (snd ki),
      v_Product = projr (snapshot e ki)\<rparr>"

definition get_call :: "nat \<times> Item \<Rightarrow> 'f call" where
  "get_call ki = Call_getProductInfo (item_ProductID (snd ki))"

definition bulk_params :: "'f float_ops \<Rightarrow> 'f ValidatedItem \<Rightarrow> 'f insert_params" where
  "bulk_params fl v =
     \<lparr>ip_product_id = v_ProductID v, ip_quantity = v_Quantity v,
      ip_total_price = fmul fl (Price (v_Product v)) (float64 fl (v_Quantity v)),
      ip_status = ''confirmed'', ip_user_id = None\<rparr>"

definition insert_ok :: "'f float_ops \<Rightarrow> 'f env \<Rightarrow> nat \<times> 'f ValidatedItem \<Rightarrow> bool" where
  "insert_ok fl e kv = (\<not> isl (db_insert e (fst kv) (bulk_params fl (snd kv))))"

definition created :: "'f float_ops \<Rightarrow> 'f env \<Rightarrow> nat \<times> 'f ValidatedItem \<Rightarrow> 'f Order" where
  "created fl e kv =
     (case projr (db_insert e (fst kv) (bulk_params fl (snd kv))) of
        (i, t) \<Rightarrow>
          \<lparr>ID = i, UserID = 0, ProductID = v_ProductID (snd kv), Quantity = v_Quantity (snd kv),
           TotalPrice = fmul fl (Price (v_Product (snd kv))) (float64 fl (v_Quantity (snd kv))),
           Status = ''confirmed'', CreatedAt = t\<rparr>)"

definition inserted :: "'f float_ops \<Rightarrow> 'f env \<Rightarrow> nat \<times> 'f ValidatedItem \<Rightarrow> 'f Order" where
  "inserted fl e kv =
     (case projr (db_insert e (fst kv) (bulk_params fl (snd kv))) of
        (i, t) \<Rightarrow> db_row fl (bulk_params fl (snd kv)) i t)"

definition insert_call :: "'f float_ops \<Rightarrow> nat \<times> 'f ValidatedItem \<Rightarrow> 'f call" where
  "insert_call fl kv = Call_tx_insert (bulk_params fl (snd kv))"

definition ext_calls ::
  "'f env \<Rightarrow> 'f ValidatedItem list \<Rightarrow> nat \<times> 'f Order \<Rightarrow> 'f call list" where
  "ext_calls e vs io =
     [Call_updateProductStock (v_ProductID (vs ! fst io)) (v_Product (vs ! fst io))
        (Stock (v_Product (vs ! fst io)) - v_Quantity (vs ! fst io)),
      Call_publishEvent (order_created e (fst io) (snd io))]"

definition ext_logs ::
  "'f env \<Rightarrow> 'f ValidatedItem list \<Rightarrow> nat \<times> 'f Order \<Rightarrow> 'f log_line list" where
  "ext_logs e vs io =
     (case error_of_reply (inv_put e (fst io) (v_ProductID (vs ! fst io))
             (update_data (v_Product (vs ! fst io))
                (Stock (v_Product (vs ! fst io)) - v_Quantity (vs ! fst io)))) of
        Some msg \<Rightarrow> [Log_update_failed_for (v_ProductID (vs ! fst io)) msg]
      | None \<Rightarrow> [])
     @ [case kafka e (fst io) (order_created e (fst io) (snd io)) of
          MarshalErr err \<Rightarrow> Log_marshal_failed err
        | WriteErr err \<Rightarrow> Log_publish_failed err
        | Written \<Rightarrow> Log_published (order_created e (fst io) (snd io))]"

definition validatedItems :: "'f env \<Rightarrow> Item list \<Rightarrow> 'f ValidatedItem list" where
  "validatedItems e items = map (validated e) (List.enumerate 0 items)"

definition createdOrders :: "'f float_ops \<Rightarrow> 'f env \<Rightarrow> Item list \<Rightarrow> 'f Order list" where
  "createdOrders fl e items = map (created fl e) (List.enumerate 0 (validatedItems e items))"

definition insertedRows :: "'f float_ops \<Rightarrow> 'f env \<Rightarrow> Item list \<Rightarrow> 'f Order list" where
  "insertedRows fl e items = map (inserted fl e) (List.enumerate 0 (validatedItems e items))"

definition all_valid :: "'f env \<Rightarrow> Item list \<Rightarrow> bool" where
  "all_valid e items = list_all (item_ok e) (List.enumerate 0 items)"

definition all_inserted :: "'f float_ops \<Rightarrow> 'f env \<Rightarrow> Item list \<Rightarrow> bool" where
  "all_inserted fl e items =
     list_all (insert_ok fl e) (List.enumerate 0 (validatedItems e items))"

definition in_tx :: "Item list \<Rightarrow> 'f sys \<Rightarrow> 'f sys" where
  "in_tx items s =
     s\<lparr>calls := calls s @ map get_call (List.enumerate 0 items) @ [Call_Begin], tx := Some []\<rparr>"

subsection \<open>A concrete shop\<close>

text \<open>
  Prices as whole numbers of hundredths, with exact arithmetic: the column
  \<^verbatim>\<open>DECIMAL(10, 2)\<close> keeps such a price as it is. Two products; an environment in which
  every call succeeds; and the service before any request.
\<close>

definition cents :: "int float_ops" where
  "cents = \<lparr>fmul = (*), float64 = sint, decimal = (\<lambda>x. x)\<rparr>"

definition widget :: "int Product" where
  "widget = \<lparr>Product_ID = 1, Name = ''Widget'', Price = 10000, Stock = 50\<rparr>"

definition gadget :: "int Product" where
  "gadget = \<lparr>Product_ID = 2, Name = ''Gadget'', Price = 2550, Stock = 10\<rparr>"

definition shop :: "int env" where
  "shop =
     \<lparr>inv_get = (\<lambda>k productID.
         if productID = 1 then GetResp 200 (Inr widget)
         else if productID = 2 then GetResp 200 (Inr gadget)
         else GetResp 404 (Inl ''invalid character'')),
      inv_put = (\<lambda>k productID d. PutResp 200 []),
      db_insert = (\<lambda>k p. Inr (of_nat k + 1, 0)),
      db_begin = None,
      db_commit = None,
      kafka = (\<lambda>k ev. Written),
      clock = (\<lambda>k. 0)\<rparr>"

definition idle :: "int sys" where
  "idle = \<lparr>orders = [], tx = None, calls = [], logs = []\<rparr>"

text \<open>The same shop when the inventory service cannot be reached.\<close>

definition unreachable :: "int env" where
  "unreachable = shop\<lparr>inv_get := \<lambda>k productID. GetErr ''connection refused''\<rparr>"

text \<open>The inventory's table with the widget on it, described.\<close>

definition shelf :: "int inv_Product list" where
  "shelf =
     [\<lparr>inv_ID = 1, inv_Name = ''Widget'', inv_Description = ''A fine widget'',
       inv_Price = 10000, inv_Stock = 50, inv_CreatedAt = 0\<rparr>,
      \<lparr>inv_ID = 2, inv_Name = ''Gadget'', inv_Description = ''A small gadget'',
       inv_Price = 2550, inv_Stock = 10, inv_CreatedAt = 0\<rparr>]"

subsection \<open>IEEE doubles\<close>

text \<open>
  A second instance of the operations on \<^verbatim>\<open>float64\<close>: a finite double is \<open>mant * 2 ^ expo\<close>
  with \<open>2 ^ 52 \<le> \<bar>mant\<bar> < 2 ^ 53\<close>, or zero. Infinities, NaN, subnormal numbers and
  the bounds of the exponent are left out.

  \<open>nearest a b x\<close> is the double nearest to \<open>a / b * 2 ^ x\<close> for \<open>b > 0\<close>, ties to the even
  mantissa: this is how a product is rounded, how an \<^verbatim>\<open>int\<close> is converted, and how a
  decimal numeral such as \<^verbatim>\<open>2499.99\<close> is read (\<open>nearest 249999 100 0\<close>).
  \<open>hundredths x\<close> is \<open>x\<close> in hundredths, rounded to the nearest whole number, ties away
  from zero, as the column \<^verbatim>\<open>DECIMAL(10, 2)\<close> rounds what it is given.
\<close>

record double =
  mant :: int
  expo :: int

fun bits :: "nat \<Rightarrow> nat" where
  "bits n = (if n = 0 then 0 else Suc (bits (n div 2)))"

declare bits.simps [simp del]

definition half_even :: "int \<Rightarrow> int \<Rightarrow> int" where
  "half_even n d =
     (let q = n div d; r = n mod d
      in if 2 * r < d then q else if d < 2 * r then q + 1 else if even q then q else q + 1)"

definition nearest :: "int \<Rightarrow> int \<Rightarrow> int \<Rightarrow> double" where
  "nearest a b x =
     (if a = 0 then \<lparr>mant = 0, expo = 0\<rparr>
      else
        let n = \<bar>a\<bar>;
            g = int (bits (nat n)) - int (bits (nat b)) - 53;
            n1 = (if 0 \<le> g then n else n * 2 ^ nat (- g));
            d1 = (if 0 \<le> g then b * 2 ^ nat g else b);
            g2 = (if 2 ^ 53 * d1 \<le> n1 then g + 1 else g);
            d2 = (if 2 ^ 53 * d1 \<le> n1 then 2 * d1 else d1);
            m = half_even n1 d2
        in if m = 2 ^ 53 then \<lparr>mant = sgn a * 2 ^ 52, expo = g2 + 1 + x\<rparr>
           else \<lparr>mant = sgn a * m, expo = g2 + x\<rparr>)"

definition hundredths :: "double \<Rightarrow> int" where
  "hundredths x =
     (let n = \<bar>mant x\<bar> * 100
      in sgn (mant x) *
           (if 0 \<le> expo x then n * 2 ^ nat (expo x)
            else (2 * n + 2 ^ nat (- expo x)) div (2 * 2 ^ nat (- expo x))))"

definition binary64 :: "double float_ops" where
  "binary64 =
     \<lparr>fmul = (\<lambda>x y. nearest (mant x * mant y) 1 (expo x + expo y)),
      float64 = (\<lambda>n. nearest (sint n) 1 0),
      decimal = (\<lambda>x. nearest (hundredths x) 100 0)\<rparr>"

text \<open>
  The product of the quick start guide, priced 2499.99, in an environment in which every
  call succeeds.
\<close>

definition laptop :: "double Product" where
  "laptop =
     \<lparr>Product_ID = 1, Name = ''Gaming Laptop'', Price = nearest 249999 100 0, Stock = 25\<rparr>"

definition laptops :: "double env" where
  "laptops =
     \<lparr>inv_get = (\<lambda>k productID. GetResp 200 (Inr laptop)),
      inv_put = (\<lambda>k productID d. PutResp 200 []),
      db_insert = (\<lambda>k p. Inr (1, 0)),
      db_begin = None,
      db_commit = None,
      kafka = (\<lambda>k ev. Written),
      clock = (\<lambda>k. 0)\<rparr>"

definition at_rest :: "double sys" where
  "at_rest = \<lparr>orders = [], tx = None, calls = [], logs = []\<rparr>"

section \<open>The loops of the bulk workflow\<close>

lemma updateProductStock_to_env:
  "updateProductStock (to_env e k) productID product newStock s =
     ((error_of_reply (inv_put e k productID (update_data product newStock)), ()),
      called (Call_updateProductStock productID product newStock) s)"
  by (simp add: updateProductStock_def to_env_def)

lemma validation_phase_ok:
  "list_all (item_ok e) xs \<Longrightarrow>
   validation_phase e xs acc s =
     (Inr (acc @ map (validated e) xs), s\<lparr>calls := calls s @ map get_call xs\<rparr>)"
proof (induction xs arbitrary: acc s)
  case Nil
  then show ?case by simp
next
  case (Cons x xs)
  obtain k item where x: "x = (k, item)" by (cases x)
  from Cons.prems have hd: "item_ok e (k, item)" and rest: "list_all (item_ok e) xs"
    by (simp_all add: x)
  from hd obtain p where p: "snapshot e (k, item) = Inr p"
    and st: "\<not> Stock p <s item_Quantity item"
    by (auto simp: item_ok_def split: sum.splits)
  show ?case
    using p st Cons.IH [OF rest]
    by (simp add: x getProductInfo_def snapshot_def validated_def get_call_def called_def)
qed

lemma validation_phase_fail:
  "\<not> list_all (item_ok e) xs \<Longrightarrow>
   \<exists>n. n < length xs \<and> list_all (item_ok e) (take n xs) \<and> \<not> item_ok e (xs ! n)
     \<and> validation_phase e xs acc s =
         (Inl (rejection e (xs ! n)), s\<lparr>calls := calls s @ map get_call (take (Suc n) xs)\<rparr>)"
proof (induction xs arbitrary: acc s)
  case Nil
  then show ?case by simp
next
  case (Cons x xs)
  obtain k item where x: "x = (k, item)" by (cases x)
  show ?case
  proof (cases "item_ok e x")
    case True
    then obtain p where p: "snapshot e (k, item) = Inr p"
      and st: "\<not> Stock p <s item_Quantity item"
      by (auto simp: x item_ok_def split: sum.splits)
    from True Cons.prems have "\<not> list_all (item_ok e) xs" by simp
    from Cons.IH [OF this] obtain n where n: "n < length xs"
      and before: "list_all (item_ok e) (take n xs)" and at: "\<not> item_ok e (xs ! n)"
      and eq: "validation_phase e xs (acc @ [validated e x])
                 (s\<lparr>calls := calls s @ [get_call x]\<rparr>) =
               (Inl (rejection e (xs ! n)), s\<lparr>calls := calls s @ [get_call x]\<rparr>
                  \<lparr>calls := calls (s\<lparr>calls := calls s @ [get_call x]\<rparr>) @
                     map get_call (take (Suc n) xs)\<rparr>)"
      by blast
    have "Suc n < length (x # xs) \<and> list_all (item_ok e) (take (Suc n) (x # xs))
        \<and> \<not> item_ok e ((x # xs) ! Suc n)
        \<and> validation_phase e (x # xs) acc s =
            (Inl (rejection e ((x # xs) ! Suc n)),
             s\<lparr>calls := calls s @ map get_call (take (Suc (Suc n)) (x # xs))\<rparr>)"
      using p st n eq True before at
      by (simp add: x getProductInfo_def snapshot_def validated_def get_call_def called_def)
    then show ?thesis by blast
  next
    case False
    then have "0 < length (x # xs) \<and> list_all (item_ok e) (take 0 (x # xs))
        \<and> \<not> item_ok e ((x # xs) ! 0)
        \<and> validation_phase e (x # xs) acc s =
            (Inl (rejection e ((x # xs) ! 0)),
             s\<lparr>calls := calls s @ map get_call (take (Suc 0) (x # xs))\<rparr>)"
      by (auto simp: x item_ok_def getProductInfo_def snapshot_def get_call_def called_def
          rejection_def split: sum.splits)
    then show ?thesis by blast
  qed
qed

lemma transaction_phase_orders:
  "orders (snd (transaction_phase fl e xs acc s)) = orders s"
proof (induction xs arbitrary: acc s)
  case Nil
  then show ?case by simp
next
  case (Cons x xs)
  obtain k v where x: "x = (k, v)" by (cases x)
  show ?case
    by (simp add: x tx_insert_def Let_def called_def logged_def Cons.IH
             split: option.splits sum.splits prod.splits)
qed

lemma transaction_phase_Inl:
  "fst (transaction_phase fl e xs acc s) = Inl resp \<Longrightarrow>
   resp = http_Error ''Internal Server Error'' StatusInternalServerError"
proof (induction xs arbitrary: acc s)
  case Nil
  then show ?case by simp
next
  case (Cons x xs)
  obtain k v where x: "x = (k, v)" by (cases x)
  from Cons.prems show ?case
    by (auto simp: x Let_def dest: Cons.IH split: prod.splits sum.splits)
qed

lemma transaction_phase_ok:
  "tx s = Some pending \<Longrightarrow> list_all (insert_ok fl e) xs \<Longrightarrow>
   transaction_phase fl e xs acc s =
     (Inr (acc @ map (created fl e) xs),
      s\<lparr>tx := Some (pending @ map (inserted fl e) xs),
        calls := calls s @ map (insert_call fl) xs\<rparr>)"
proof (induction xs arbitrary: acc s pending)
  case Nil
  then show ?case by simp
next
  case (Cons x xs)
  obtain k v where x: "x = (k, v)" by (cases x)
  from Cons.prems have hd: "insert_ok fl e (k, v)" and rest: "list_all (insert_ok fl e) xs"
    by (simp_all add: x)
  from hd obtain i t where it: "db_insert e k (bulk_params fl v) = Inr (i, t)"
    by (cases "db_insert e k (bulk_params fl v)") (auto simp: insert_ok_def)
  let ?s1 = "s\<lparr>calls := calls s @ [insert_call fl x],
               tx := Some (pending @ [inserted fl e x])\<rparr>"
  have step: "tx_insert fl e k (bulk_params fl v) s = (Inr (i, t), ?s1)"
    using Cons.prems(1) it
    by (simp add: tx_insert_def Let_def called_def x inserted_def insert_call_def)
  have cr: "created fl e x =
      \<lparr>ID = i, UserID = 0, ProductID = v_ProductID v, Quantity = v_Quantity v,
       TotalPrice = fmul fl (Price (v_Product v)) (float64 fl (v_Quantity v)),
       Status = ''confirmed'', CreatedAt = t\<rparr>"
    using it by (simp add: created_def x)
  have "tx ?s1 = Some (pending @ [inserted fl e x])" by simp
  from Cons.IH [OF this rest, of "acc @ [created fl e x]"] show ?case
    using step cr
    by (simp add: x Let_def bulk_params_def [symmetric])
qed

lemma transaction_phase_fail:
  "tx s = Some pending \<Longrightarrow> \<not> list_all (insert_ok fl e) xs \<Longrightarrow>
   isl (fst (transaction_phase fl e xs acc s))"
proof (induction xs arbitrary: acc s pending)
  case Nil
  then show ?case by simp
next
  case (Cons x xs)
  obtain k v where x: "x = (k, v)" by (cases x)
  show ?case
  proof (cases "insert_ok fl e (k, v)")
    case True
    then obtain i t where it: "db_insert e k (bulk_params fl v) = Inr (i, t)"
      by (cases "db_insert e k (bulk_params fl v)") (auto simp: insert_ok_def)
    from True Cons.prems have rest: "\<not> list_all (insert_ok fl e) xs" by (simp add: x)
    obtain s1 where step: "tx_insert fl e k (bulk_params fl v) s = (Inr (i, t), s1)"
      and tx1: "tx s1 = Some (pending @ [db_row fl (bulk_params fl v) i t])"
      using Cons.prems(1) it by (simp add: tx_insert_def Let_def called_def)
    from Cons.IH [OF tx1 rest] show ?thesis
      using step by (simp add: x Let_def bulk_params_def [symmetric])
  next
    case False
    then obtain err where "db_insert e k (bulk_params fl v) = Inl err"
      by (cases "db_insert e k (bulk_params fl v)") (auto simp: insert_ok_def)
    then show ?thesis
      using Cons.prems(1)
      by (simp add: x Let_def bulk_params_def [symmetric] tx_insert_def called_def)
  qed
qed

lemma external_phase_ok:
  "list_all (\<lambda>io. fst io < length vs) xs \<Longrightarrow>
   external_phase e vs xs s =
     (True, s\<lparr>calls := calls s @ concat (map (ext_calls e vs) xs),
             logs := logs s @ concat (map (ext_logs e vs) xs)\<rparr>)"
proof (induction xs arbitrary: s)
  case Nil
  then show ?case by simp
next
  case (Cons x xs)
  obtain i order where x: "x = (i, order)" by (cases x)
  from Cons.prems have i: "i < length vs" and rest: "list_all (\<lambda>io. fst io < length vs) xs"
    by (simp_all add: x)
  show ?case
    using i
    by (simp add: x Cons.IH [OF rest] Let_def updateProductStock_to_env publishEvent_def
          called_def logged_def ext_calls_def ext_logs_def
          split: option.splits pub_reply.splits)
qed

lemma enumerate_in_range:
  "length cs \<le> n \<Longrightarrow> list_all (\<lambda>io. fst io < n) (List.enumerate 0 cs)"
  by (auto simp: list_all_iff in_set_enumerate_eq)

lemma external_phase_frame:
  "orders (snd (external_phase e vs xs s)) = orders s \<and> tx (snd (external_phase e vs xs s)) = tx s"
proof (induction xs arbitrary: s)
  case Nil
  then show ?case by simp
next
  case (Cons x xs)
  obtain i order where x: "x = (i, order)" by (cases x)
  show ?case
    by (simp add: x Cons.IH Let_def updateProductStock_to_env publishEvent_def
          called_def logged_def split: option.splits pub_reply.splits)
qed

lemma validation_all_valid:
  "all_valid e items \<Longrightarrow>
   validation_phase e (List.enumerate 0 items) [] s =
     (Inr (validatedItems e items),
      s\<lparr>calls := calls s @ map get_call (List.enumerate 0 items)\<rparr>)"
  using validation_phase_ok [of e "List.enumerate 0 items" "[]" s]
  by (simp add: all_valid_def validatedItems_def)

lemma enumerate_as_map: "List.enumerate 0 xs = map (\<lambda>k. (k, xs ! k)) [0..<length xs]"
  by (rule nth_equalityI) (simp_all add: nth_enumerate_eq)

lemma all_valid_iff: "all_valid e items \<longleftrightarrow> (\<forall>k<length items. item_ok e (k, items ! k))"
proof -
  have "all_valid e items \<longleftrightarrow> (\<forall>k\<in>set [0..<length items]. item_ok e (k, items ! k))"
    unfolding all_valid_def enumerate_as_map by (simp add: list_all_iff)
  then show ?thesis by auto
qed

lemma bulk_rejected:
  assumes "\<not> all_valid e items"
  shows "\<exists>n. n < length items \<and> (\<forall>j<n. item_ok e (j, items ! j)) \<and> \<not> item_ok e (n, items ! n)
     \<and> createBulkOrder fl e (Inr items) s =
         (s\<lparr>calls := calls s @
               map (\<lambda>j. Call_getProductInfo (item_ProductID (items ! j))) [0..<Suc n]\<rparr>,
          Some (rejection e (n, items ! n)))"
proof -
  let ?xs = "List.enumerate 0 items"
  from validation_phase_fail [OF assms [unfolded all_valid_def], of "[]" s]
  obtain n where n: "n < length items"
    and before: "list_all (item_ok e) (take n ?xs)" and at: "\<not> item_ok e (?xs ! n)" and
    v: "validation_phase e ?xs [] s =
       (Inl (rejection e (?xs ! n)), s\<lparr>calls := calls s @ map get_call (take (Suc n) ?xs)\<rparr>)"
    by auto
  have nth: "?xs ! n = (n, items ! n)" using n by (simp add: nth_enumerate_eq)
  have "take n ?xs = map (\<lambda>k. (k, items ! k)) [0..<n]"
    using n unfolding enumerate_as_map by (simp add: take_map)
  with before have b: "\<forall>j<n. item_ok e (j, items ! j)" by (simp add: list_all_iff)
  have "take (Suc n) ?xs = map (\<lambda>k. (k, items ! k)) [0..<Suc n]"
    using n unfolding enumerate_as_map by (simp add: take_map del: upt_Suc)
  then have c: "map get_call (take (Suc n) ?xs) =
      map (\<lambda>j. Call_getProductInfo (item_ProductID (items ! j))) [0..<Suc n]"
    by (simp add: get_call_def comp_def del: upt_Suc)
  have "createBulkOrder fl e (Inr items) s =
         (s\<lparr>calls := calls s @
               map (\<lambda>j. Call_getProductInfo (item_ProductID (items ! j))) [0..<Suc n]\<rparr>,
          Some (rejection e (n, items ! n)))"
    by (simp add: createBulkOrder_def v nth c del: upt_Suc)
  with n b at nth show ?thesis by auto
qed

lemma begin_ok:
  "db_begin e = None \<Longrightarrow> db_Begin e s = (None, s\<lparr>calls := calls s @ [Call_Begin], tx := Some []\<rparr>)"
  by (simp add: db_Begin_def called_def)

lemma bulk_begin_failed:
  assumes "all_valid e items" and "db_begin e = Some err"
  shows "createBulkOrder fl e (Inr items) s =
     (s\<lparr>calls := calls s @ map get_call (List.enumerate 0 items) @ [Call_Begin]\<rparr>,
      Some (http_Error ''Failed to start transaction'' StatusInternalServerError))"
  using assms(2)
  by (simp add: createBulkOrder_def validation_all_valid [OF assms(1)] db_Begin_def called_def)

lemma transaction_all_inserted:
  "all_inserted fl e items \<Longrightarrow> tx s = Some [] \<Longrightarrow>
   transaction_phase fl e (List.enumerate 0 (validatedItems e items)) [] s =
     (Inr (createdOrders fl e items),
      s\<lparr>tx := Some (insertedRows fl e items),
        calls := calls s @ map (insert_call fl) (List.enumerate 0 (validatedItems e items))\<rparr>)"
  using transaction_phase_ok [of s "[]" fl e "List.enumerate 0 (validatedItems e items)" "[]"]
  by (simp add: all_inserted_def createdOrders_def insertedRows_def)

lemma bulk_in_tx_insert_failed:
  assumes "\<not> all_inserted fl e items" and "tx s = Some []"
  shows "\<exists>s'. bulk_in_tx fl e (validatedItems e items) s =
           (s', Some (http_Error ''Internal Server Error'' StatusInternalServerError))
         \<and> orders s' = orders s"
proof -
  let ?t = "transaction_phase fl e (List.enumerate 0 (validatedItems e items)) [] s"
  from transaction_phase_fail [OF assms(2) assms(1) [unfolded all_inserted_def], of "[]"]
  obtain resp where r: "fst ?t = Inl resp" by (cases "fst ?t") auto
  from transaction_phase_Inl [OF this]
  have resp: "resp = http_Error ''Internal Server Error'' StatusInternalServerError" .
  have o: "orders (snd ?t) = orders s" by (simp add: transaction_phase_orders)
  have t: "?t = (Inl resp, snd ?t)" using r by (cases ?t) simp
  have "bulk_in_tx fl e (validatedItems e items) s = (snd ?t, Some resp)"
    unfolding bulk_in_tx_def by (subst t) simp
  with o resp show ?thesis by blast
qed

lemma bulk_in_tx_commit_failed:
  assumes "all_inserted fl e items" and "tx s = Some []" and "db_commit e = Some err"
  shows "bulk_in_tx fl e (validatedItems e items) s =
           (s\<lparr>tx := None,
              calls := calls s @ map (insert_call fl) (List.enumerate 0 (validatedItems e items))
                       @ [Call_Commit],
              logs := logs s @ [Log_commit_failed err]\<rparr>,
            Some (http_Error ''Internal Server Error'' StatusInternalServerError))"
  using assms(3)
  by (simp add: bulk_in_tx_def transaction_all_inserted [OF assms(1,2)] tx_Commit_def
        called_def logged_def)

lemma bulk_in_tx_committed:
  assumes "all_inserted fl e items" and "tx s = Some []" and "db_commit e = None"
  shows "bulk_in_tx fl e (validatedItems e items) s =
     (s\<lparr>orders := orders s @ insertedRows fl e items,
        tx := None,
        calls := calls s @ map (insert_call fl) (List.enumerate 0 (validatedItems e items))
                 @ [Call_Commit]
                 @ concat (map (ext_calls e (validatedItems e items))
                             (List.enumerate 0 (createdOrders fl e items))),
        logs := logs s @ concat (map (ext_logs e (validatedItems e items))
                                   (List.enumerate 0 (createdOrders fl e items)))\<rparr>,
      Some \<lparr>status = StatusCreated, body = OrdersJSON (createdOrders fl e items)\<rparr>)"
proof -
  have "length (createdOrders fl e items) \<le> length (validatedItems e items)"
    by (simp add: createdOrders_def)
  note ep = external_phase_ok [OF enumerate_in_range [OF this]]
  show ?thesis
    using assms(3)
    by (simp add: bulk_in_tx_def transaction_all_inserted [OF assms(1,2)] tx_Commit_def
          called_def ep)
qed

lemma bulk_entered:
  assumes "all_valid e items" and "db_begin e = None"
  shows "createBulkOrder fl e (Inr items) s =
     (tx_Rollback (fst (bulk_in_tx fl e (validatedItems e items) (in_tx items s))),
      snd (bulk_in_tx fl e (validatedItems e items) (in_tx items s)))"
  using assms(2)
  by (simp add: createBulkOrder_def validation_all_valid [OF assms(1)] db_Begin_def called_def
        in_tx_def split: prod.splits)

lemma tx_in_tx: "tx (in_tx items s) = Some []"
  by (simp add: in_tx_def)

lemma bulk_insert_failed:
  assumes "all_valid e items" and "db_begin e = None" and "\<not> all_inserted fl e items"
  shows "\<exists>s'. createBulkOrder fl e (Inr items) s =
           (s', Some (http_Error ''Internal Server Error'' StatusInternalServerError))
         \<and> orders s' = orders s \<and> tx s' = None \<and> last (calls s') = Call_Rollback"
proof -
  from bulk_in_tx_insert_failed [OF assms(3) tx_in_tx]
  obtain s1 where "bulk_in_tx fl e (validatedItems e items) (in_tx items s) =
           (s1, Some (http_Error ''Internal Server Error'' StatusInternalServerError))"
    and "orders s1 = orders (in_tx items s)"
    by blast
  then show ?thesis
    unfolding bulk_entered [OF assms(1,2)]
    by (simp add: tx_Rollback_def called_def in_tx_def)
qed

lemma bulk_commit_failed:
  assumes "all_valid e items" and "db_begin e = None" and "all_inserted fl e items"
    and "db_commit e = Some err"
  shows "\<exists>s'. createBulkOrder fl e (Inr items) s =
           (s', Some (http_Error ''Internal Server Error'' StatusInternalServerError))
         \<and> orders s' = orders s \<and> tx s' = None \<and> last (calls s') = Call_Rollback"
  unfolding bulk_entered [OF assms(1,2)] bulk_in_tx_commit_failed [OF assms(3) tx_in_tx assms(4)]
  by (simp add: tx_Rollback_def called_def in_tx_def)

lemma bulk_committed:
  assumes "all_valid e items" and "db_begin e = None" and "all_inserted fl e items"
    and "db_commit e = None"
  shows "createBulkOrder fl e (Inr items) s =
     (s\<lparr>orders := orders s @ insertedRows fl e items,
        tx := None,
        calls := calls s @ map get_call (List.enumerate 0 items) @ [Call_Begin]
                 @ map (insert_call fl) (List.enumerate 0 (validatedItems e items))
                 @ [Call_Commit]
                 @ concat (map (ext_calls e (validatedItems e items))
                             (List.enumerate 0 (createdOrders fl e items)))
                 @ [Call_Rollback],
        logs := logs s @ concat (map (ext_logs e (validatedItems e items))
                                   (List.enumerate 0 (createdOrders fl e items)))\<rparr>,
      Some \<lparr>status = StatusCreated, body = OrdersJSON (createdOrders fl e items)\<rparr>)"
  unfolding bulk_entered [OF assms(1,2)] bulk_in_tx_committed [OF assms(3) tx_in_tx assms(4)]
  by (simp add: tx_Rollback_def called_def in_tx_def)

section \<open>The single-item workflow\<close>

lemmas single_defs = createOrder_def getProductInfo_def updateProductStock_to_env
  publishEvent_def called_def logged_def

text \<open>
  C6. When the snapshot fetched for a single order has less stock than the quantity asked
  for, \<^verbatim>\<open>createOrder\<close> answers 400 with the message \<^verbatim>\<open>Insufficient stock\<close>; the only call
  it has made is the fetch, and the table of orders is as it was.
\<close>

theorem createOrder_insufficient_stock:
  assumes "product_of_reply (inv_get e 0 (req_ProductID r)) = Inr product"
    and "Stock product <s req_Quantity r"
  shows "createOrder fl e (Inr r) s =
           (s\<lparr>calls := calls s @ [Call_getProductInfo (req_ProductID r)]\<rparr>,
            \<lparr>status = StatusBadRequest, body = Text (''Insufficient stock'' @ [CHR 0x0A])\<rparr>)
         \<and> orders (fst (createOrder fl e (Inr r) s)) = orders s"
  using assms by (simp add: single_defs http_Error_def)

theorem createOrder_insufficient_stock_witness:
  "product_of_reply (inv_get shop 0 2) = Inr gadget \<and> Stock gadget <s 100
   \<and> status (snd (createOrder cents shop
        (Inr \<lparr>req_ProductID = 2, req_Quantity = 100, req_UserID = 7\<rparr>) idle)) = 400
   \<and> orders (fst (createOrder cents shop
        (Inr \<lparr>req_ProductID = 2, req_Quantity = 100, req_UserID = 7\<rparr>) idle)) = []"
proof -
  have 1: "product_of_reply (inv_get shop 0
             (req_ProductID \<lparr>req_ProductID = 2, req_Quantity = 100, req_UserID = 7\<rparr>)) = Inr gadget"
    by (simp add: shop_def product_of_reply_def)
  have 2: "Stock gadget <s req_Quantity \<lparr>req_ProductID = 2, req_Quantity = 100, req_UserID = 7\<rparr>"
    by (simp add: gadget_def)
  from createOrder_insufficient_stock [OF 1 2, of cents idle] 1 2
  show ?thesis by (simp add: idle_def)
qed

lemma createOrder_same_answers:
  assumes "inv_get e' 0 = inv_get e 0" and "db_insert e' 0 = db_insert e 0"
  shows "snd (createOrder fl e' decoded s) = snd (createOrder fl e decoded s)
       \<and> orders (fst (createOrder fl e' decoded s)) = orders (fst (createOrder fl e decoded s))"
  by (simp add: single_defs assms Let_def
        split: sum.splits prod.splits option.splits pub_reply.splits)

lemma laptop_price: "nearest 249999 100 0 = \<lparr>mant = 5497536148647444, expo = - 41\<rparr>"
  unfolding nearest_def Let_def by (simp add: bits.simps half_even_def Let_def)

lemma double_three: "nearest 3 1 0 = \<lparr>mant = 6755399441055744, expo = - 51\<rparr>"
  unfolding nearest_def Let_def by (simp add: bits.simps half_even_def Let_def)

lemma laptop_product:
  "nearest 37138052625756690758749007118336 1 (- 92) =
     \<lparr>mant = 8246304222971166, expo = - 40\<rparr>"
  unfolding nearest_def Let_def by (simp add: bits.simps half_even_def Let_def)

lemma laptop_hundredths: "hundredths \<lparr>mant = 8246304222971166, expo = - 40\<rparr> = 749997"
  by (simp add: hundredths_def Let_def)

lemma laptop_rounded: "nearest 749997 100 0 = \<lparr>mant = 8246304222971167, expo = - 40\<rparr>"
  unfolding nearest_def Let_def by (simp add: bits.simps half_even_def Let_def)

lemma laptop_total:
  "fmul binary64 (Price laptop) (float64 binary64 3) =
     \<lparr>mant = 8246304222971166, expo = - 40\<rparr>"
  by (simp add: binary64_def laptop_def laptop_price double_three laptop_product)

lemma laptop_stored:
  "decimal binary64 \<lparr>mant = 8246304222971166, expo = - 40\<rparr> =
     \<lparr>mant = 8246304222971167, expo = - 40\<rparr>"
  by (simp add: binary64_def laptop_hundredths laptop_rounded)

lemma laptop_stock: "Stock laptop = 25"
  by (simp add: laptop_def)

lemma laptop_order:
  "createOrder binary64 laptops
       (Inr \<lparr>req_ProductID = 1, req_Quantity = 3, req_UserID = 0\<rparr>) at_rest =
     (\<lparr>orders = [\<lparr>ID = 1, UserID = 0, ProductID = 1, Quantity = 3,
                    TotalPrice = \<lparr>mant = 8246304222971167, expo = - 40\<rparr>,
                    Status = ''confirmed'', CreatedAt = 0\<rparr>],
       tx = None,
       calls = [Call_getProductInfo 1,
                Call_insert \<lparr>ip_product_id = 1, ip_quantity = 3,
                  ip_total_price = \<lparr>mant = 8246304222971166, expo = - 40\<rparr>,
                  ip_status = ''confirmed'', ip_user_id = Some 0\<rparr>,
                Call_updateProductStock 1 laptop 22,
                Call_publishEvent \<lparr>event_type = ''order_created'', order_id = 1,
                  product_id = 1, quantity = 3,
                  total_price = \<lparr>mant = 8246304222971166, expo = - 40\<rparr>, timestamp = 0\<rparr>],
       logs = [Log_published \<lparr>event_type = ''order_created'', order_id = 1,
                  product_id = 1, quantity = 3,
                  total_price = \<lparr>mant = 8246304222971166, expo = - 40\<rparr>, timestamp = 0\<rparr>]\<rparr>,
      \<lparr>status = StatusCreated,
       body = OrderJSON \<lparr>ID = 1, UserID = 0, ProductID = 1, Quantity = 3,
                TotalPrice = \<lparr>mant = 8246304222971166, expo = - 40\<rparr>,
                Status = ''confirmed'', CreatedAt = 0\<rparr>\<rparr>)"
  by (simp add: single_defs laptops_def at_rest_def product_of_reply_def error_of_reply_def
        db_row_def order_created_def Let_def laptop_stock laptop_total laptop_stored)

text \<open>
  The order of the quick start guide: three laptops at 2499.99. The product of the two
  doubles is \<open>8246304222971166 * 2 ^ -40\<close>, which prints as 7499.969999999999, and that
  is the total price in the body; the column keeps 7499.97, which reads back as
  \<open>8246304222971167 * 2 ^ -40\<close>. The body of the 201 is not the row.
\<close>

theorem body_is_not_the_row:
  "status (snd (createOrder binary64 laptops
       (Inr \<lparr>req_ProductID = 1, req_Quantity = 3, req_UserID = 0\<rparr>) at_rest)) = StatusCreated
   \<and> body (snd (createOrder binary64 laptops
       (Inr \<lparr>req_ProductID = 1, req_Quantity = 3, req_UserID = 0\<rparr>) at_rest)) =
     OrderJSON \<lparr>ID = 1, UserID = 0, ProductID = 1, Quantity = 3,
       TotalPrice = \<lparr>mant = 8246304222971166, expo = - 40\<rparr>,
       Status = ''confirmed'', CreatedAt = 0\<rparr>
   \<and> orders (fst (createOrder binary64 laptops
       (Inr \<lparr>req_ProductID = 1, req_Quantity = 3, req_UserID = 0\<rparr>) at_rest)) =
     [\<lparr>ID = 1, UserID = 0, ProductID = 1, Quantity = 3,
       TotalPrice = \<lparr>mant = 8246304222971167, expo = - 40\<rparr>,
       Status = ''confirmed'', CreatedAt = 0\<rparr>]
   \<and> body (snd (createOrder binary64 laptops
       (Inr \<lparr>req_ProductID = 1, req_Quantity = 3, req_UserID = 0\<rparr>) at_rest)) \<noteq>
     OrderJSON (last (orders (fst (createOrder binary64 laptops
       (Inr \<lparr>req_ProductID = 1, req_Quantity = 3, req_UserID = 0\<rparr>) at_rest))))"
  by (simp add: laptop_order)

text \<open>
  C1, as the code has it. A 201 from \<^verbatim>\<open>createOrder\<close> means: the request decoded, the fetch
  gave a product with enough stock, the insert returned an id and a timestamp, and the
  table of orders is the old one followed by exactly one row, with status \<^verbatim>\<open>confirmed\<close>
  and the request's product, quantity and user. The body is the \<^verbatim>\<open>Order\<close> built from
  the request and the values the insert returned: it has the id, user, product, quantity,
  status and timestamp of the row, and as total price the computed product, of which the
  row keeps what the column \<^verbatim>\<open>DECIMAL(10, 2)\<close> keeps. The response and the table are the
  same under any environment that answers the fetch and the insert the same way, whatever
  the stock update and the publisher do.
\<close>

theorem createOrder_created:
  assumes "createOrder fl e decoded s = (s', resp)" and "status resp = StatusCreated"
  shows "\<exists>r product i t.
      decoded = Inr r
    \<and> product_of_reply (inv_get e 0 (req_ProductID r)) = Inr product
    \<and> \<not> Stock product <s req_Quantity r
    \<and> db_insert e 0
         \<lparr>ip_product_id = req_ProductID r, ip_quantity = req_Quantity r,
          ip_total_price = fmul fl (Price product) (float64 fl (req_Quantity r)),
          ip_status = ''confirmed'', ip_user_id = Some (req_UserID r)\<rparr> = Inr (i, t)
    \<and> orders s' = orders s @
         [\<lparr>ID = i, UserID = req_UserID r, ProductID = req_ProductID r,
           Quantity = req_Quantity r,
           TotalPrice = decimal fl (fmul fl (Price product) (float64 fl (req_Quantity r))),
           Status = ''confirmed'', CreatedAt = t\<rparr>]
    \<and> body resp =
         OrderJSON \<lparr>ID = i, UserID = req_UserID r, ProductID = req_ProductID r,
           Quantity = req_Quantity r,
           TotalPrice = fmul fl (Price product) (float64 fl (req_Quantity r)),
           Status = ''confirmed'', CreatedAt = t\<rparr>
    \<and> (\<forall>e'. inv_get e' 0 = inv_get e 0 \<and> db_insert e' 0 = db_insert e 0 \<longrightarrow>
           snd (createOrder fl e' decoded s) = resp
         \<and> orders (fst (createOrder fl e' decoded s)) = orders s')"
proof -
  have same: "\<forall>e'. inv_get e' 0 = inv_get e 0 \<and> db_insert e' 0 = db_insert e 0 \<longrightarrow>
           snd (createOrder fl e' decoded s) = resp
         \<and> orders (fst (createOrder fl e' decoded s)) = orders s'"
    using createOrder_same_answers [of _ e fl decoded s] assms(1) by simp
  from assms have "\<exists>r product i t.
      decoded = Inr r
    \<and> product_of_reply (inv_get e 0 (req_ProductID r)) = Inr product
    \<and> \<not> Stock product <s req_Quantity r
    \<and> db_insert e 0
         \<lparr>ip_product_id = req_ProductID r, ip_quantity = req_Quantity r,
          ip_total_price = fmul fl (Price product) (float64 fl (req_Quantity r)),
          ip_status = ''confirmed'', ip_user_id = Some (req_UserID r)\<rparr> = Inr (i, t)
    \<and> orders s' = orders s @
         [\<lparr>ID = i, UserID = req_UserID r, ProductID = req_ProductID r,
           Quantity = req_Quantity r,
           TotalPrice = decimal fl (fmul fl (Price product) (float64 fl (req_Quantity r))),
           Status = ''confirmed'', CreatedAt = t\<rparr>]
    \<and> body resp =
         OrderJSON \<lparr>ID = i, UserID = req_UserID r, ProductID = req_ProductID r,
           Quantity = req_Quantity r,
           TotalPrice = fmul fl (Price product) (float64 fl (req_Quantity r)),
           Status = ''confirmed'', CreatedAt = t\<rparr>"
    by (auto simp: single_defs http_Error_def db_row_def Let_def
          split: sum.splits prod.splits option.splits pub_reply.splits if_splits)
  with same show ?thesis by blast
qed

theorem createOrder_created_witness:
  "status (snd (createOrder binary64 laptops
       (Inr \<lparr>req_ProductID = 1, req_Quantity = 3, req_UserID = 0\<rparr>) at_rest)) = StatusCreated
   \<and> map TotalPrice (orders (fst (createOrder binary64 laptops
       (Inr \<lparr>req_ProductID = 1, req_Quantity = 3, req_UserID = 0\<rparr>) at_rest))) =
     [decimal binary64 (fmul binary64 (Price laptop) (float64 binary64 3))]
   \<and> map Quantity (orders (fst (createOrder binary64 laptops
       (Inr \<lparr>req_ProductID = 1, req_Quantity = 3, req_UserID = 0\<rparr>) at_rest))) = [3]
   \<and> map Status (orders (fst (createOrder binary64 laptops
       (Inr \<lparr>req_ProductID = 1, req_Quantity = 3, req_UserID = 0\<rparr>) at_rest))) =
     [''confirmed'']"
proof -
  let ?run = "createOrder binary64 laptops
       (Inr \<lparr>req_ProductID = 1, req_Quantity = 3, req_UserID = 0\<rparr>) at_rest"
  have st: "status (snd ?run) = StatusCreated"
    by (simp add: laptop_order)
  have run: "?run = (fst ?run, snd ?run)" by simp
  from createOrder_created [OF run st] obtain r product i t where
    d: "Inr \<lparr>req_ProductID = 1, req_Quantity = 3, req_UserID = 0\<rparr> = Inr r"
    and p: "product_of_reply (inv_get laptops 0 (req_ProductID r)) = Inr product"
    and o: "orders (fst ?run) = orders at_rest @
         [\<lparr>ID = i, UserID = req_UserID r, ProductID = req_ProductID r,
           Quantity = req_Quantity r,
           TotalPrice = decimal binary64
             (fmul binary64 (Price product) (float64 binary64 (req_Quantity r))),
           Status = ''confirmed'', CreatedAt = t\<rparr>]"
    by blast
  from d have r: "r = \<lparr>req_ProductID = 1, req_Quantity = 3, req_UserID = 0\<rparr>" by simp
  from p have w: "product = laptop" by (simp add: r laptops_def product_of_reply_def)
  have "orders (fst ?run) =
         [\<lparr>ID = i, UserID = 0, ProductID = 1, Quantity = 3,
           TotalPrice = decimal binary64 (fmul binary64 (Price laptop) (float64 binary64 3)),
           Status = ''confirmed'', CreatedAt = t\<rparr>]"
    unfolding o by (simp add: r w at_rest_def)
  with st show ?thesis by simp
qed

section \<open>The bulk workflow\<close>

lemma validatedItems_as_map:
  "validatedItems e items = map (\<lambda>k. validated e (k, items ! k)) [0..<length items]"
  unfolding validatedItems_def by (subst enumerate_as_map) (simp add: comp_def)

lemma length_validatedItems: "length (validatedItems e items) = length items"
  by (simp add: validatedItems_def)

lemma enumerate_validatedItems:
  "List.enumerate 0 (validatedItems e items) =
     map (\<lambda>k. (k, validated e (k, items ! k))) [0..<length items]"
  by (subst enumerate_as_map) (simp add: length_validatedItems validatedItems_as_map)

lemma createdOrders_as_map:
  "createdOrders fl e items =
     map (\<lambda>k. created fl e (k, validated e (k, items ! k))) [0..<length items]"
  unfolding createdOrders_def enumerate_validatedItems by (simp add: comp_def)

lemma length_createdOrders: "length (createdOrders fl e items) = length items"
  by (simp add: createdOrders_as_map)

lemma all_inserted_iff:
  "all_inserted fl e items \<longleftrightarrow>
     (\<forall>k<length items. insert_ok fl e (k, validated e (k, items ! k)))"
  unfolding all_inserted_def enumerate_validatedItems by (auto simp: list_all_iff)

lemma item_ok_iff:
  "item_ok e (k, item) \<longleftrightarrow>
     (case product_of_reply (inv_get e k (item_ProductID item)) of
        Inl err \<Rightarrow> False
      | Inr product \<Rightarrow> \<not> Stock product <s item_Quantity item)"
  by (simp add: item_ok_def snapshot_def split: sum.splits)

lemma status_rejection: "status (rejection e ki) = StatusBadRequest"
  by (simp add: rejection_def http_Error_def split: sum.splits)

text \<open>
  C3. When some item \<open>k\<close> of a bulk request fails validation (its fetch fails, or the
  snapshot has less stock than the quantity asked for), \<^verbatim>\<open>createBulkOrder\<close> stops at the
  first such item \<open>n \<le> k\<close> with a 400. The only calls it has made are the fetches for the
  items up to \<open>n\<close>: no transaction was begun and no row written, so the table of orders
  is as it was, whatever the items before \<open>n\<close> were.
\<close>

theorem createBulkOrder_validation_failure:
  assumes "k < length items"
    and "case product_of_reply (inv_get e k (item_ProductID (items ! k))) of
           Inl err \<Rightarrow> True
         | Inr product \<Rightarrow> Stock product <s item_Quantity (items ! k)"
  shows "\<exists>n resp. n \<le> k
     \<and> createBulkOrder fl e (Inr items) s =
         (s\<lparr>calls := calls s @
               map (\<lambda>j. Call_getProductInfo (item_ProductID (items ! j))) [0..<Suc n]\<rparr>,
          Some resp)
     \<and> status resp = StatusBadRequest
     \<and> orders (fst (createBulkOrder fl e (Inr items) s)) = orders s
     \<and> tx (fst (createBulkOrder fl e (Inr items) s)) = tx s"
proof -
  from assms(2) have bad: "\<not> item_ok e (k, items ! k)"
    by (simp add: item_ok_iff split: sum.splits)
  with assms(1) have "\<not> all_valid e items" by (auto simp: all_valid_iff)
  from bulk_rejected [OF this, of fl s] obtain n where n: "n < length items"
    and before: "\<forall>j<n. item_ok e (j, items ! j)"
    and run: "createBulkOrder fl e (Inr items) s =
         (s\<lparr>calls := calls s @
               map (\<lambda>j. Call_getProductInfo (item_ProductID (items ! j))) [0..<Suc n]\<rparr>,
          Some (rejection e (n, items ! n)))"
    by blast
  from before bad have "n \<le> k" by (meson not_le_imp_less)
  with run show ?thesis
    by (intro exI [of _ n] exI [of _ "rejection e (n, items ! n)"])
       (simp add: status_rejection del: upt_Suc)
qed

theorem createBulkOrder_validation_failure_witness:
  "createBulkOrder cents shop
     (Inr [\<lparr>item_ProductID = 1, item_Quantity = 2\<rparr>,
           \<lparr>item_ProductID = 2, item_Quantity = 100\<rparr>]) idle =
     (idle\<lparr>calls := [Call_getProductInfo 1, Call_getProductInfo 2]\<rparr>,
      Some \<lparr>status = StatusBadRequest,
            body = Text (''Insufficient stock for product 2'' @ [CHR 0x0A])\<rparr>)
   \<and> orders (fst (createBulkOrder cents shop
        (Inr [\<lparr>item_ProductID = 1, item_Quantity = 2\<rparr>,
              \<lparr>item_ProductID = 2, item_Quantity = 100\<rparr>]) idle)) = []"
proof -
  let ?items = "[\<lparr>item_ProductID = 1, item_Quantity = 2\<rparr>,
                 \<lparr>item_ProductID = 2, item_Quantity = 100\<rparr>]"
  have 1: "(1::nat) < length ?items" by simp
  have 2: "case product_of_reply (inv_get shop 1 (item_ProductID (?items ! 1))) of
           Inl err \<Rightarrow> True
         | Inr product \<Rightarrow> Stock product <s item_Quantity (?items ! 1)"
    by (simp add: shop_def product_of_reply_def gadget_def)
  from createBulkOrder_validation_failure [OF 1 2, of cents idle]
  have o: "orders (fst (createBulkOrder cents shop (Inr ?items) idle)) = orders idle"
    by blast
  have "createBulkOrder cents shop (Inr ?items) idle =
     (idle\<lparr>calls := [Call_getProductInfo 1, Call_getProductInfo 2]\<rparr>,
      Some \<lparr>status = StatusBadRequest,
            body = Text (''Insufficient stock for product 2'' @ [CHR 0x0A])\<rparr>)"
    by (simp add: createBulkOrder_def getProductInfo_def called_def shop_def
          product_of_reply_def widget_def gadget_def idle_def http_Error_def
          show_int_def show_nat.simps)
  with o show ?thesis by (simp add: idle_def)
qed

lemma created_explicit:
  assumes "product_of_reply (inv_get e k (item_ProductID item)) = Inr p"
    and "db_insert e k (bulk_params fl (validated e (k, item))) = Inr (i, t)"
  shows "created fl e (k, validated e (k, item)) =
     \<lparr>ID = i, UserID = 0, ProductID = item_ProductID item, Quantity = item_Quantity item,
      TotalPrice = fmul fl (Price p) (float64 fl (item_Quantity item)),
      Status = ''confirmed'', CreatedAt = t\<rparr>"
  using assms
  by (simp add: created_def bulk_params_def validated_def snapshot_def)

lemma createdOrders_nth:
  "k < length items \<Longrightarrow>
   createdOrders fl e items ! k = created fl e (k, validated e (k, items ! k))"
  by (simp add: createdOrders_as_map)

lemma insertedRows_as_map:
  "insertedRows fl e items =
     map (\<lambda>k. inserted fl e (k, validated e (k, items ! k))) [0..<length items]"
  unfolding insertedRows_def enumerate_validatedItems by (simp add: comp_def)

lemma length_insertedRows: "length (insertedRows fl e items) = length items"
  by (simp add: insertedRows_as_map)

lemma insertedRows_nth:
  "k < length items \<Longrightarrow>
   insertedRows fl e items ! k = inserted fl e (k, validated e (k, items ! k))"
  by (simp add: insertedRows_as_map)

lemma inserted_is_created_rounded:
  "inserted fl e kv = (created fl e kv)\<lparr>TotalPrice := decimal fl (TotalPrice (created fl e kv))\<rparr>"
  by (simp add: inserted_def created_def db_row_def bulk_params_def split: prod.splits)

lemma inserted_explicit:
  assumes "product_of_reply (inv_get e k (item_ProductID item)) = Inr p"
    and "db_insert e k (bulk_params fl (validated e (k, item))) = Inr (i, t)"
  shows "inserted fl e (k, validated e (k, item)) =
     \<lparr>ID = i, UserID = 0, ProductID = item_ProductID item, Quantity = item_Quantity item,
      TotalPrice = decimal fl (fmul fl (Price p) (float64 fl (item_Quantity item))),
      Status = ''confirmed'', CreatedAt = t\<rparr>"
  unfolding inserted_is_created_rounded created_explicit [OF assms] by simp

lemma bulk_outcomes:
  assumes "all_valid e items"
  shows "(if db_begin e = None \<and> all_inserted fl e items \<and> db_commit e = None
          then orders (fst (createBulkOrder fl e (Inr items) s)) =
                 orders s @ insertedRows fl e items
             \<and> snd (createBulkOrder fl e (Inr items) s) =
                 Some \<lparr>status = StatusCreated, body = OrdersJSON (createdOrders fl e items)\<rparr>
          else orders (fst (createBulkOrder fl e (Inr items) s)) = orders s
             \<and> (\<exists>r. snd (createBulkOrder fl e (Inr items) s) = Some r
                    \<and> status r = StatusInternalServerError))
       \<and> (db_begin e = None \<longrightarrow>
            tx (fst (createBulkOrder fl e (Inr items) s)) = None
          \<and> last (calls (fst (createBulkOrder fl e (Inr items) s))) = Call_Rollback)"
proof (cases "db_begin e")
  case (Some err)
  from bulk_begin_failed [OF assms this, of fl s] show ?thesis
    using Some by (simp add: http_Error_def)
next
  case None
  show ?thesis
  proof (cases "all_inserted fl e items")
    case False
    from bulk_insert_failed [OF assms None False, of s] show ?thesis
      using None False by (auto simp: http_Error_def)
  next
    case True
    show ?thesis
    proof (cases "db_commit e")
      case (Some err)
      from bulk_commit_failed [OF assms None True Some, of s] show ?thesis
        using None True Some by (auto simp: http_Error_def)
    next
      case c: None
      show ?thesis
        using None True c by (simp add: bulk_committed [OF assms None True c])
    qed
  qed
qed

text \<open>
  C4. When every item of a bulk request validates, the inserts run inside one
  transaction. If \<^verbatim>\<open>db.Begin\<close> succeeds, every insert succeeds and the commit succeeds, the
  table of orders is the old one followed by one row per item, in order, each
  \<^verbatim>\<open>confirmed\<close> with the item's product and quantity, and the answer is 201 with one
  \<^verbatim>\<open>Order\<close> per row: the row itself, but with the computed price where the row has what
  the column keeps of it. In every other case the answer is 500 and the table is as it
  was. Whenever the
  transaction was begun it is over at the end, and the last call is the deferred
  \<^verbatim>\<open>tx.Rollback\<close>. So either all line items are persisted or none is.
\<close>

theorem createBulkOrder_atomic:
  assumes "\<forall>k<length items.
             case product_of_reply (inv_get e k (item_ProductID (items ! k))) of
               Inl err \<Rightarrow> False
             | Inr product \<Rightarrow> \<not> Stock product <s item_Quantity (items ! k)"
    and "createBulkOrder fl e (Inr items) s = (s', resp)"
  shows "(if db_begin e = None
            \<and> (\<forall>k<length items.
                  \<not> isl (db_insert e k (bulk_params fl (validated e (k, items ! k)))))
            \<and> db_commit e = None
          then \<exists>new created. orders s' = orders s @ new \<and> length new = length items
                 \<and> resp = Some \<lparr>status = StatusCreated, body = OrdersJSON created\<rparr>
                 \<and> length created = length items
                 \<and> (\<forall>k<length items. Status (new ! k) = ''confirmed''
                        \<and> ProductID (new ! k) = item_ProductID (items ! k)
                        \<and> Quantity (new ! k) = item_Quantity (items ! k)
                        \<and> new ! k = (created ! k)
                             \<lparr>TotalPrice := decimal fl (TotalPrice (created ! k))\<rparr>)
          else orders s' = orders s
             \<and> (\<exists>r. resp = Some r \<and> status r = StatusInternalServerError))
       \<and> (db_begin e = None \<longrightarrow> tx s' = None \<and> last (calls s') = Call_Rollback)"
proof -
  from assms(1) have valid: "all_valid e items" by (simp add: all_valid_iff item_ok_iff)
  have ins: "(\<forall>k<length items.
                  \<not> isl (db_insert e k (bulk_params fl (validated e (k, items ! k)))))
             \<longleftrightarrow> all_inserted fl e items"
    by (simp add: all_inserted_iff insert_ok_def)
  have fields: "Status (insertedRows fl e items ! k) = ''confirmed''
        \<and> ProductID (insertedRows fl e items ! k) = item_ProductID (items ! k)
        \<and> Quantity (insertedRows fl e items ! k) = item_Quantity (items ! k)
        \<and> insertedRows fl e items ! k = (createdOrders fl e items ! k)
             \<lparr>TotalPrice := decimal fl (TotalPrice (createdOrders fl e items ! k))\<rparr>"
    if "k < length items" for k
    using that
    by (simp add: insertedRows_nth createdOrders_nth inserted_is_created_rounded created_def
          validated_def split: prod.splits)
  show ?thesis
  proof (cases "db_begin e = None \<and> all_inserted fl e items \<and> db_commit e = None")
    case True
    with bulk_outcomes [OF valid, of fl s] assms(2)
    have o: "orders s' = orders s @ insertedRows fl e items"
      and r: "resp = Some \<lparr>status = StatusCreated, body = OrdersJSON (createdOrders fl e items)\<rparr>"
      and t: "tx s' = None \<and> last (calls s') = Call_Rollback"
      by simp_all
    have "\<exists>new created. orders s' = orders s @ new \<and> length new = length items
                 \<and> resp = Some \<lparr>status = StatusCreated, body = OrdersJSON created\<rparr>
                 \<and> length created = length items
                 \<and> (\<forall>k<length items. Status (new ! k) = ''confirmed''
                        \<and> ProductID (new ! k) = item_ProductID (items ! k)
                        \<and> Quantity (new ! k) = item_Quantity (items ! k)
                        \<and> new ! k = (created ! k)
                             \<lparr>TotalPrice := decimal fl (TotalPrice (created ! k))\<rparr>)"
      using o r fields
      by (rule_tac x = "insertedRows fl e items" in exI,
          rule_tac x = "createdOrders fl e items" in exI)
         (simp add: length_insertedRows length_createdOrders)
    with True t show ?thesis unfolding ins by simp
  next
    case False
    with bulk_outcomes [OF valid, of fl s] assms(2) show ?thesis
      unfolding ins by (auto split: if_splits)
  qed
qed

theorem createBulkOrder_atomic_witness:
  "orders (fst (createBulkOrder cents (shop\<lparr>db_commit := Some ''connection lost''\<rparr>)
     (Inr [\<lparr>item_ProductID = 1, item_Quantity = 2\<rparr>,
           \<lparr>item_ProductID = 2, item_Quantity = 10\<rparr>]) idle)) = []
   \<and> map_option status (snd (createBulkOrder cents (shop\<lparr>db_commit := Some ''connection lost''\<rparr>)
     (Inr [\<lparr>item_ProductID = 1, item_Quantity = 2\<rparr>,
           \<lparr>item_ProductID = 2, item_Quantity = 10\<rparr>]) idle)) = Some StatusInternalServerError
   \<and> last (calls (fst (createBulkOrder cents (shop\<lparr>db_commit := Some ''connection lost''\<rparr>)
     (Inr [\<lparr>item_ProductID = 1, item_Quantity = 2\<rparr>,
           \<lparr>item_ProductID = 2, item_Quantity = 10\<rparr>]) idle))) = Call_Rollback"
proof -
  let ?items = "[\<lparr>item_ProductID = 1, item_Quantity = 2\<rparr>,
                 \<lparr>item_ProductID = 2, item_Quantity = 10\<rparr>]"
  let ?e = "shop\<lparr>db_commit := Some ''connection lost''\<rparr>"
  let ?run = "createBulkOrder cents ?e (Inr ?items) idle"
  have 1: "\<forall>k<length ?items.
             case product_of_reply (inv_get ?e k (item_ProductID (?items ! k))) of
               Inl err \<Rightarrow> False
             | Inr product \<Rightarrow> \<not> Stock product <s item_Quantity (?items ! k)"
    by (auto simp: less_Suc_eq shop_def product_of_reply_def widget_def gadget_def)
  have 2: "?run = (fst ?run, snd ?run)" by simp
  have 3: "db_begin ?e = None" "db_commit ?e \<noteq> None" by (simp_all add: shop_def)
  from createBulkOrder_atomic [OF 1 2] 3 show ?thesis
    by (auto simp: idle_def)
qed

section \<open>Prices\<close>

lemma createOrder_orders:
  "orders (fst (createOrder fl e decoded s)) = orders s
   \<or> (\<exists>r product i t. decoded = Inr r
        \<and> product_of_reply (inv_get e 0 (req_ProductID r)) = Inr product
        \<and> \<not> Stock product <s req_Quantity r
        \<and> orders (fst (createOrder fl e decoded s)) = orders s @
             [\<lparr>ID = i, UserID = req_UserID r, ProductID = req_ProductID r,
               Quantity = req_Quantity r,
               TotalPrice = decimal fl (fmul fl (Price product) (float64 fl (req_Quantity r))),
               Status = ''confirmed'', CreatedAt = t\<rparr>])"
  by (auto simp: single_defs db_row_def Let_def
        split: sum.splits prod.splits option.splits pub_reply.splits)

lemma bulk_orders:
  "orders (fst (createBulkOrder fl e (Inr items) s)) = orders s
   \<or> all_valid e items \<and> all_inserted fl e items
     \<and> orders (fst (createBulkOrder fl e (Inr items) s)) = orders s @ insertedRows fl e items"
proof (cases "all_valid e items")
  case False
  from bulk_rejected [OF this, of fl s] show ?thesis by auto
next
  case True
  from bulk_outcomes [OF True, of fl s] show ?thesis
    by (auto simp: True split: if_splits)
qed

lemma insertedRows_explicit:
  assumes "all_valid e items" and "all_inserted fl e items" and "k < length items"
  shows "\<exists>product i t.
      product_of_reply (inv_get e k (item_ProductID (items ! k))) = Inr product
    \<and> \<not> Stock product <s item_Quantity (items ! k)
    \<and> insertedRows fl e items ! k =
        \<lparr>ID = i, UserID = 0, ProductID = item_ProductID (items ! k),
         Quantity = item_Quantity (items ! k),
         TotalPrice = decimal fl
           (fmul fl (Price product) (float64 fl (item_Quantity (items ! k)))),
         Status = ''confirmed'', CreatedAt = t\<rparr>
    \<and> createdOrders fl e items ! k =
        \<lparr>ID = i, UserID = 0, ProductID = item_ProductID (items ! k),
         Quantity = item_Quantity (items ! k),
         TotalPrice = fmul fl (Price product) (float64 fl (item_Quantity (items ! k))),
         Status = ''confirmed'', CreatedAt = t\<rparr>"
proof -
  from assms(1,3) have "item_ok e (k, items ! k)" by (simp add: all_valid_iff)
  then obtain p where p: "product_of_reply (inv_get e k (item_ProductID (items ! k))) = Inr p"
    and st: "\<not> Stock p <s item_Quantity (items ! k)"
    by (auto simp: item_ok_iff split: sum.splits)
  from assms(2,3) have "insert_ok fl e (k, validated e (k, items ! k))"
    by (simp add: all_inserted_iff)
  then obtain i t where
    "db_insert e k (bulk_params fl (validated e (k, items ! k))) = Inr (i, t)"
    by (cases "db_insert e k (bulk_params fl (validated e (k, items ! k)))")
       (auto simp: insert_ok_def)
  from created_explicit [OF p this] inserted_explicit [OF p this] p st assms(3) show ?thesis
    by (simp add: createdOrders_nth insertedRows_nth)
qed



section \<open>The external phase\<close>

lemma validation_phase_ext:
  "validation_phase (e\<lparr>inv_put := p, kafka := q\<rparr>) xs acc s = validation_phase e xs acc s"
proof (induction xs arbitrary: acc s)
  case Nil
  then show ?case by simp
next
  case (Cons x xs)
  obtain k item where x: "x = (k, item)" by (cases x)
  show ?case
    by (simp add: x getProductInfo_def Cons.IH split: sum.splits)
qed

lemma transaction_phase_ext:
  "transaction_phase fl (e\<lparr>inv_put := p, kafka := q\<rparr>) xs acc s =
   transaction_phase fl e xs acc s"
proof (induction xs arbitrary: acc s)
  case Nil
  then show ?case by simp
next
  case (Cons x xs)
  obtain k item where x: "x = (k, item)" by (cases x)
  show ?case
    by (simp add: x tx_insert_def Let_def Cons.IH split: sum.splits prod.splits option.splits)
qed

lemma external_phase_ext:
  assumes "clock e1 = clock e2"
    and "orders s1 = orders s2" and "tx s1 = tx s2" and "calls s1 = calls s2"
  shows "fst (external_phase e1 vs xs s1) = fst (external_phase e2 vs xs s2)
       \<and> orders (snd (external_phase e1 vs xs s1)) = orders (snd (external_phase e2 vs xs s2))
       \<and> tx (snd (external_phase e1 vs xs s1)) = tx (snd (external_phase e2 vs xs s2))
       \<and> calls (snd (external_phase e1 vs xs s1)) = calls (snd (external_phase e2 vs xs s2))"
  using assms(2-4)
proof (induction xs arbitrary: s1 s2)
  case Nil
  then show ?case by simp
next
  case (Cons x xs)
  obtain i order where x: "x = (i, order)" by (cases x)
  show ?case
  proof (cases "i < length vs")
    case False
    with Cons.prems show ?thesis by (simp add: x)
  next
    case True
    let ?step = "\<lambda>e s. publishEvent e i (order_created e i order)
       (case error_of_reply (inv_put e i (v_ProductID (vs ! i))
               (update_data (v_Product (vs ! i))
                  (Stock (v_Product (vs ! i)) - v_Quantity (vs ! i)))) of
          Some msg \<Rightarrow> logged (Log_update_failed_for (v_ProductID (vs ! i)) msg)
             (called (Call_updateProductStock (v_ProductID (vs ! i)) (v_Product (vs ! i))
                        (Stock (v_Product (vs ! i)) - v_Quantity (vs ! i))) s)
        | None \<Rightarrow> called (Call_updateProductStock (v_ProductID (vs ! i)) (v_Product (vs ! i))
                        (Stock (v_Product (vs ! i)) - v_Quantity (vs ! i))) s)"
    have unf: "external_phase e vs (x # xs) s = external_phase e vs xs (?step e s)" for e s
      using True by (simp add: x Let_def updateProductStock_to_env)
    have "orders (?step e1 s1) = orders (?step e2 s2)"
      "tx (?step e1 s1) = tx (?step e2 s2)"
      "calls (?step e1 s1) = calls (?step e2 s2)"
      using Cons.prems assms(1)
      by (simp_all add: updateProductStock_to_env publishEvent_def called_def logged_def
            order_created_def Let_def split: option.splits pub_reply.splits)
    from Cons.IH [OF this] show ?thesis by (simp only: unf)
  qed
qed

lemma bulk_in_tx_ext:
  "snd (bulk_in_tx fl (e\<lparr>inv_put := p, kafka := q\<rparr>) vs s) = snd (bulk_in_tx fl e vs s)
   \<and> orders (fst (bulk_in_tx fl (e\<lparr>inv_put := p, kafka := q\<rparr>) vs s)) =
       orders (fst (bulk_in_tx fl e vs s))
   \<and> tx (fst (bulk_in_tx fl (e\<lparr>inv_put := p, kafka := q\<rparr>) vs s)) =
       tx (fst (bulk_in_tx fl e vs s))
   \<and> calls (fst (bulk_in_tx fl (e\<lparr>inv_put := p, kafka := q\<rparr>) vs s)) =
       calls (fst (bulk_in_tx fl e vs s))"
proof (cases "transaction_phase fl e (List.enumerate 0 vs) [] s")
  case (Pair r s1)
  show ?thesis
  proof (cases r)
    case (Inl resp)
    with Pair show ?thesis by (simp add: bulk_in_tx_def transaction_phase_ext)
  next
    case (Inr cs)
    show ?thesis
    proof (cases "tx_Commit e s1")
      case c: (Pair err s2)
      have "tx_Commit (e\<lparr>inv_put := p, kafka := q\<rparr>) s1 = tx_Commit e s1"
        by (simp add: tx_Commit_def Let_def split: option.splits)
      with c have c': "tx_Commit (e\<lparr>inv_put := p, kafka := q\<rparr>) s1 = (err, s2)"
        by simp
      show ?thesis
      proof (cases err)
        case (Some msg)
        with Pair Inr c c' show ?thesis by (simp add: bulk_in_tx_def transaction_phase_ext)
      next
        case None
        have "clock (e\<lparr>inv_put := p, kafka := q\<rparr>) = clock e" by simp
        note ext = external_phase_ext [OF this refl refl refl, of vs "List.enumerate 0 cs" s2]
        obtain b1 t1 where x1:
          "external_phase (e\<lparr>inv_put := p, kafka := q\<rparr>) vs (List.enumerate 0 cs) s2 = (b1, t1)"
          by (cases "external_phase (e\<lparr>inv_put := p, kafka := q\<rparr>) vs (List.enumerate 0 cs) s2")
        obtain b2 t2 where x2: "external_phase e vs (List.enumerate 0 cs) s2 = (b2, t2)"
          by (cases "external_phase e vs (List.enumerate 0 cs) s2")
        from ext x1 x2 have "b1 = b2" "orders t1 = orders t2" "tx t1 = tx t2"
          "calls t1 = calls t2"
          by simp_all
        then show ?thesis
          using Pair Inr c c' None x1 x2
          by (cases b2) (simp_all add: bulk_in_tx_def transaction_phase_ext)
      qed
    qed
  qed
qed

lemma createBulkOrder_ext:
  "snd (createBulkOrder fl (e\<lparr>inv_put := p, kafka := q\<rparr>) decoded s) =
     snd (createBulkOrder fl e decoded s)
   \<and> orders (fst (createBulkOrder fl (e\<lparr>inv_put := p, kafka := q\<rparr>) decoded s)) =
       orders (fst (createBulkOrder fl e decoded s))
   \<and> tx (fst (createBulkOrder fl (e\<lparr>inv_put := p, kafka := q\<rparr>) decoded s)) =
       tx (fst (createBulkOrder fl e decoded s))
   \<and> calls (fst (createBulkOrder fl (e\<lparr>inv_put := p, kafka := q\<rparr>) decoded s)) =
       calls (fst (createBulkOrder fl e decoded s))"
proof (cases decoded)
  case (Inl err)
  then show ?thesis by (simp add: createBulkOrder_def)
next
  case (Inr items)
  show ?thesis
  proof (cases "validation_phase e (List.enumerate 0 items) [] s")
    case (Pair r s1)
    show ?thesis
    proof (cases r)
      case (Inl resp)
      with Pair Inr show ?thesis by (simp add: createBulkOrder_def validation_phase_ext)
    next
      case v: (Inr vs)
      show ?thesis
      proof (cases "db_begin e")
        case (Some err)
        with Pair Inr v show ?thesis
          by (simp add: createBulkOrder_def validation_phase_ext db_Begin_def)
      next
        case None
        from bulk_in_tx_ext [where fl = fl and e = e and p = p and q = q and vs = vs
            and s = "(called Call_Begin s1)\<lparr>tx := Some []\<rparr>"]
        show ?thesis
          using Pair Inr v None
          by (simp add: createBulkOrder_def validation_phase_ext db_Begin_def tx_Rollback_def
                called_def case_prod_beta)
      qed
    qed
  qed
qed

lemma createOrder_ext:
  "snd (createOrder fl (e\<lparr>inv_put := p, kafka := q\<rparr>) decoded s) =
     snd (createOrder fl e decoded s)
   \<and> orders (fst (createOrder fl (e\<lparr>inv_put := p, kafka := q\<rparr>) decoded s)) =
       orders (fst (createOrder fl e decoded s))
   \<and> tx (fst (createOrder fl (e\<lparr>inv_put := p, kafka := q\<rparr>) decoded s)) =
       tx (fst (createOrder fl e decoded s))
   \<and> calls (fst (createOrder fl (e\<lparr>inv_put := p, kafka := q\<rparr>) decoded s)) =
       calls (fst (createOrder fl e decoded s))"
  by (simp add: single_defs order_created_def Let_def
        split: sum.splits prod.splits option.splits pub_reply.splits)

lemma createOrder_update_logged:
  "\<forall>r product msg.
     decoded = Inr r
   \<and> status (snd (createOrder fl e decoded s)) = StatusCreated
   \<and> product_of_reply (inv_get e 0 (req_ProductID r)) = Inr product
   \<and> error_of_reply (inv_put e 0 (req_ProductID r)
        (update_data product (Stock product - req_Quantity r))) = Some msg
   \<longrightarrow> Log_update_failed msg \<in> set (logs (fst (createOrder fl e decoded s)))"
  by (auto simp: single_defs http_Error_def Let_def
        split: sum.splits prod.splits option.splits pub_reply.splits)

lemma createOrder_publish_logged:
  "\<forall>order err.
     snd (createOrder fl e decoded s) = \<lparr>status = StatusCreated, body = OrderJSON order\<rparr>
   \<and> kafka e 0 (order_created e 0 order) = WriteErr err
   \<longrightarrow> Log_publish_failed err \<in> set (logs (fst (createOrder fl e decoded s)))"
  by (auto simp: single_defs http_Error_def db_row_def Let_def
        split: sum.splits prod.splits option.splits pub_reply.splits)

lemma bulk_created:
  assumes "snd (createBulkOrder fl e (Inr items) s) = Some r" and "status r = StatusCreated"
  shows "all_valid e items \<and> db_begin e = None \<and> all_inserted fl e items \<and> db_commit e = None"
proof -
  have v: "all_valid e items"
  proof (rule ccontr)
    assume "\<not> all_valid e items"
    from bulk_rejected [OF this, of fl s] assms show False
      by (auto simp: status_rejection)
  qed
  from bulk_outcomes [OF v, of fl s] assms v show ?thesis
    by (auto split: if_splits)
qed

lemma bulk_logs:
  assumes "snd (createBulkOrder fl e (Inr items) s) = Some r" and "status r = StatusCreated"
    and "k < length items"
  shows "set (ext_logs e (validatedItems e items) (k, createdOrders fl e items ! k))
           \<subseteq> set (logs (fst (createBulkOrder fl e (Inr items) s)))
       \<and> snd (createBulkOrder fl e (Inr items) s) =
           Some \<lparr>status = StatusCreated, body = OrdersJSON (createdOrders fl e items)\<rparr>"
proof -
  from bulk_created [OF assms(1,2)] have c: "all_valid e items" "db_begin e = None"
    "all_inserted fl e items" "db_commit e = None"
    by simp_all
  have "(k, createdOrders fl e items ! k) \<in> set (List.enumerate 0 (createdOrders fl e items))"
    using assms(3) by (simp add: in_set_enumerate_eq length_createdOrders)
  then show ?thesis
    by (auto simp: bulk_committed [OF c])
qed

lemma bulk_update_logged:
  "\<forall>r k product msg.
     snd (createBulkOrder fl e (Inr items) s) = Some r \<and> status r = StatusCreated
   \<and> k < length items
   \<and> product_of_reply (inv_get e k (item_ProductID (items ! k))) = Inr product
   \<and> error_of_reply (inv_put e k (item_ProductID (items ! k))
        (update_data product (Stock product - item_Quantity (items ! k)))) = Some msg
   \<longrightarrow> Log_update_failed_for (item_ProductID (items ! k)) msg
         \<in> set (logs (fst (createBulkOrder fl e (Inr items) s)))"
proof (intro allI impI, elim conjE)
  fix r k product msg
  assume a: "snd (createBulkOrder fl e (Inr items) s) = Some r" "status r = StatusCreated"
    "k < length items"
    and p: "product_of_reply (inv_get e k (item_ProductID (items ! k))) = Inr product"
    and u: "error_of_reply (inv_put e k (item_ProductID (items ! k))
        (update_data product (Stock product - item_Quantity (items ! k)))) = Some msg"
  have "validatedItems e items ! k =
      \<lparr>v_ProductID = item_ProductID (items ! k), v_Quantity = item_Quantity (items ! k),
       v_Product = product\<rparr>"
    using a(3) p by (simp add: validatedItems_as_map validated_def snapshot_def)
  with u have "Log_update_failed_for (item_ProductID (items ! k)) msg
      \<in> set (ext_logs e (validatedItems e items) (k, createdOrders fl e items ! k))"
    by (simp add: ext_logs_def)
  with bulk_logs [OF a] show "Log_update_failed_for (item_ProductID (items ! k)) msg
         \<in> set (logs (fst (createBulkOrder fl e (Inr items) s)))"
    by blast
qed

lemma bulk_publish_logged:
  "\<forall>created k err.
     snd (createBulkOrder fl e (Inr items) s) =
       Some \<lparr>status = StatusCreated, body = OrdersJSON created\<rparr>
   \<and> k < length items
   \<and> kafka e k (order_created e k (created ! k)) = WriteErr err
   \<longrightarrow> Log_publish_failed err \<in> set (logs (fst (createBulkOrder fl e (Inr items) s)))"
proof (intro allI impI, elim conjE)
  fix created k err
  assume b: "snd (createBulkOrder fl e (Inr items) s) =
       Some \<lparr>status = StatusCreated, body = OrdersJSON created\<rparr>"
    and k: "k < length items"
    and w0: "kafka e k (order_created e k (created ! k)) = WriteErr err"
  have a: "snd (createBulkOrder fl e (Inr items) s) =
      Some \<lparr>status = StatusCreated, body = OrdersJSON created\<rparr>"
    "status \<lparr>status = StatusCreated, body = OrdersJSON created\<rparr> = StatusCreated"
    "k < length items"
    using b k by simp_all
  from bulk_logs [OF a] b have "created = createdOrders fl e items" by simp
  with w0 have w: "kafka e k (order_created e k (createdOrders fl e items ! k)) = WriteErr err"
    by simp
  from bulk_logs [OF a] w have "Log_publish_failed err
      \<in> set (ext_logs e (validatedItems e items) (k, createdOrders fl e items ! k))"
    by (simp add: ext_logs_def)
  with bulk_logs [OF a] show
    "Log_publish_failed err \<in> set (logs (fst (createBulkOrder fl e (Inr items) s)))"
    by blast
qed

text \<open>
  C5. Let the stock update and the publisher behave in any way at all (\<open>p\<close> and \<open>q\<close>
  in place of the environment's own). For both workflows the response is the same and the
  table of orders is the same: an external failure changes no row, undoes no commit and
  changes neither status nor body. What a failure does is print a line: after a 201, a
  stock update that returned an error has left its message in the log, and so has a
  publish that Kafka refused.
\<close>

theorem external_failures_only_logged:
  "snd (createOrder fl (e\<lparr>inv_put := p, kafka := q\<rparr>) decoded s) =
     snd (createOrder fl e decoded s)
   \<and> orders (fst (createOrder fl (e\<lparr>inv_put := p, kafka := q\<rparr>) decoded s)) =
       orders (fst (createOrder fl e decoded s))
   \<and> snd (createBulkOrder fl (e\<lparr>inv_put := p, kafka := q\<rparr>) bulk s) =
       snd (createBulkOrder fl e bulk s)
   \<and> orders (fst (createBulkOrder fl (e\<lparr>inv_put := p, kafka := q\<rparr>) bulk s)) =
       orders (fst (createBulkOrder fl e bulk s))
   \<and> (\<forall>r product msg.
         decoded = Inr r
       \<and> status (snd (createOrder fl e decoded s)) = StatusCreated
       \<and> product_of_reply (inv_get e 0 (req_ProductID r)) = Inr product
       \<and> error_of_reply (inv_put e 0 (req_ProductID r)
            (update_data product (Stock product - req_Quantity r))) = Some msg
       \<longrightarrow> Log_update_failed msg \<in> set (logs (fst (createOrder fl e decoded s))))
   \<and> (\<forall>order err.
         snd (createOrder fl e decoded s) = \<lparr>status = StatusCreated, body = OrderJSON order\<rparr>
       \<and> kafka e 0 (order_created e 0 order) = WriteErr err
       \<longrightarrow> Log_publish_failed err \<in> set (logs (fst (createOrder fl e decoded s))))
   \<and> (\<forall>r k product msg.
         snd (createBulkOrder fl e (Inr items) s) = Some r \<and> status r = StatusCreated
       \<and> k < length items
       \<and> product_of_reply (inv_get e k (item_ProductID (items ! k))) = Inr product
       \<and> error_of_reply (inv_put e k (item_ProductID (items ! k))
            (update_data product (Stock product - item_Quantity (items ! k)))) = Some msg
       \<longrightarrow> Log_update_failed_for (item_ProductID (items ! k)) msg
             \<in> set (logs (fst (createBulkOrder fl e (Inr items) s))))
   \<and> (\<forall>created k err.
         snd (createBulkOrder fl e (Inr items) s) =
           Some \<lparr>status = StatusCreated, body = OrdersJSON created\<rparr>
       \<and> k < length items
       \<and> kafka e k (order_created e k (created ! k)) = WriteErr err
       \<longrightarrow> Log_publish_failed err \<in> set (logs (fst (createBulkOrder fl e (Inr items) s))))"
  by (intro conjI createOrder_ext [THEN conjunct1] createOrder_ext [THEN conjunct2, THEN conjunct1]
        createBulkOrder_ext [THEN conjunct1] createBulkOrder_ext [THEN conjunct2, THEN conjunct1]
        createOrder_update_logged createOrder_publish_logged
        bulk_update_logged bulk_publish_logged)

lemmas bulk_defs = createBulkOrder_def bulk_in_tx_def db_Begin_def tx_insert_def tx_Commit_def
  tx_Rollback_def getProductInfo_def updateProductStock_to_env publishEvent_def
  called_def logged_def

theorem external_failures_only_logged_witness:
  "snd (createOrder cents
          (shop\<lparr>inv_put := \<lambda>k productID d. PutErr ''connection refused'',
                kafka := \<lambda>k ev. WriteErr ''broker down''\<rparr>)
          (Inr \<lparr>req_ProductID = 1, req_Quantity = 5, req_UserID = 7\<rparr>) idle) =
     \<lparr>status = StatusCreated,
      body = OrderJSON \<lparr>ID = 1, UserID = 7, ProductID = 1, Quantity = 5, TotalPrice = 50000,
                        Status = ''confirmed'', CreatedAt = 0\<rparr>\<rparr>
   \<and> orders (fst (createOrder cents
          (shop\<lparr>inv_put := \<lambda>k productID d. PutErr ''connection refused'',
                kafka := \<lambda>k ev. WriteErr ''broker down''\<rparr>)
          (Inr \<lparr>req_ProductID = 1, req_Quantity = 5, req_UserID = 7\<rparr>) idle)) =
     [\<lparr>ID = 1, UserID = 7, ProductID = 1, Quantity = 5, TotalPrice = 50000,
       Status = ''confirmed'', CreatedAt = 0\<rparr>]
   \<and> Log_update_failed ''connection refused'' \<in> set (logs (fst (createOrder cents
          (shop\<lparr>inv_put := \<lambda>k productID d. PutErr ''connection refused'',
                kafka := \<lambda>k ev. WriteErr ''broker down''\<rparr>)
          (Inr \<lparr>req_ProductID = 1, req_Quantity = 5, req_UserID = 7\<rparr>) idle)))
   \<and> Log_publish_failed ''broker down'' \<in> set (logs (fst (createOrder cents
          (shop\<lparr>inv_put := \<lambda>k productID d. PutErr ''connection refused'',
                kafka := \<lambda>k ev. WriteErr ''broker down''\<rparr>)
          (Inr \<lparr>req_ProductID = 1, req_Quantity = 5, req_UserID = 7\<rparr>) idle)))
   \<and> map_option status (snd (createBulkOrder cents
          (shop\<lparr>inv_put := \<lambda>k productID d. PutErr ''connection refused'',
                kafka := \<lambda>k ev. WriteErr ''broker down''\<rparr>)
          (Inr [\<lparr>item_ProductID = 1, item_Quantity = 2\<rparr>,
                \<lparr>item_ProductID = 2, item_Quantity = 10\<rparr>]) idle)) = Some StatusCreated
   \<and> Log_update_failed_for 2 ''connection refused'' \<in> set (logs (fst (createBulkOrder cents
          (shop\<lparr>inv_put := \<lambda>k productID d. PutErr ''connection refused'',
                kafka := \<lambda>k ev. WriteErr ''broker down''\<rparr>)
          (Inr [\<lparr>item_ProductID = 1, item_Quantity = 2\<rparr>,
                \<lparr>item_ProductID = 2, item_Quantity = 10\<rparr>]) idle)))
   \<and> Log_publish_failed ''broker down'' \<in> set (logs (fst (createBulkOrder cents
          (shop\<lparr>inv_put := \<lambda>k productID d. PutErr ''connection refused'',
                kafka := \<lambda>k ev. WriteErr ''broker down''\<rparr>)
          (Inr [\<lparr>item_ProductID = 1, item_Quantity = 2\<rparr>,
                \<lparr>item_ProductID = 2, item_Quantity = 10\<rparr>]) idle)))"
proof -
  let ?p = "\<lambda>(k::nat) (productID::int64) (d::int updateData). PutErr ''connection refused''"
  let ?q = "\<lambda>(k::nat) (ev::int event). WriteErr ''broker down''"
  let ?e = "shop\<lparr>inv_put := ?p, kafka := ?q\<rparr>"
  let ?r = "\<lparr>req_ProductID = 1, req_Quantity = 5, req_UserID = 7\<rparr>"
  let ?d = "Inr ?r :: string + orderReq"
  let ?items = "[\<lparr>item_ProductID = 1, item_Quantity = 2\<rparr>,
                 \<lparr>item_ProductID = 2, item_Quantity = 10\<rparr>]"
  let ?o = "\<lparr>ID = 1, UserID = 7, ProductID = 1, Quantity = 5, TotalPrice = 50000::int,
             Status = ''confirmed'', CreatedAt = 0\<rparr>"
  note frame = external_failures_only_logged
    [where fl = cents and e = shop and p = ?p and q = ?q and decoded = ?d and s = idle
       and bulk = "Inr ?items" and items = ?items]
  note logs = external_failures_only_logged
    [where fl = cents and e = ?e and p = ?p and q = ?q and decoded = ?d and s = idle
       and bulk = "Inr ?items" and items = ?items]
  have calm: "snd (createOrder cents shop ?d idle) = \<lparr>status = StatusCreated, body = OrderJSON ?o\<rparr>"
    "orders (fst (createOrder cents shop ?d idle)) = [?o]"
    by (simp_all add: single_defs shop_def cents_def widget_def idle_def product_of_reply_def
          error_of_reply_def db_row_def Let_def)
  from frame calm have single:
    "snd (createOrder cents ?e ?d idle) = \<lparr>status = StatusCreated, body = OrderJSON ?o\<rparr>"
    "orders (fst (createOrder cents ?e ?d idle)) = [?o]"
    by simp_all
  have p1: "product_of_reply (inv_get ?e 0 (req_ProductID ?r)) = Inr widget"
    by (simp add: shop_def product_of_reply_def)
  have u1: "error_of_reply (inv_put ?e 0 (req_ProductID ?r)
              (update_data widget (Stock widget - req_Quantity ?r)))
            = Some ''connection refused''"
    by (simp add: error_of_reply_def)
  have k1: "kafka ?e 0 (order_created ?e 0 ?o) = WriteErr ''broker down''"
    by simp
  from logs single(1) p1 u1 have l1:
    "Log_update_failed ''connection refused'' \<in> set (logs (fst (createOrder cents ?e ?d idle)))"
    by simp
  from logs single(1) k1 have l2:
    "Log_publish_failed ''broker down'' \<in> set (logs (fst (createOrder cents ?e ?d idle)))"
    by simp
  let ?cs = "[\<lparr>ID = 1, UserID = 0, ProductID = 1, Quantity = 2, TotalPrice = 20000::int,
                Status = ''confirmed'', CreatedAt = 0\<rparr>,
              \<lparr>ID = 2, UserID = 0, ProductID = 2, Quantity = 10, TotalPrice = 25500::int,
                Status = ''confirmed'', CreatedAt = 0\<rparr>]"
  have calm_bulk: "snd (createBulkOrder cents shop (Inr ?items) idle)
      = Some \<lparr>status = StatusCreated, body = OrdersJSON ?cs\<rparr>"
    by (simp add: bulk_defs shop_def cents_def widget_def gadget_def idle_def
          product_of_reply_def error_of_reply_def Let_def)
  with frame have body: "snd (createBulkOrder cents ?e (Inr ?items) idle)
      = Some \<lparr>status = StatusCreated, body = OrdersJSON ?cs\<rparr>"
    by simp
  then have
    b: "map_option status (snd (createBulkOrder cents ?e (Inr ?items) idle)) = Some StatusCreated"
    by simp
  then obtain r where r: "snd (createBulkOrder cents ?e (Inr ?items) idle) = Some r"
    "status r = StatusCreated"
    by auto
  have p2: "product_of_reply (inv_get ?e 1 (item_ProductID (?items ! 1))) = Inr gadget"
    by (simp add: shop_def product_of_reply_def)
  have u2: "error_of_reply (inv_put ?e 1 (item_ProductID (?items ! 1))
              (update_data gadget (Stock gadget - item_Quantity (?items ! 1))))
            = Some ''connection refused''"
    by (simp add: error_of_reply_def)
  have k2: "kafka ?e 1 (order_created ?e 1 (created ! 1)) = WriteErr ''broker down''"
    for created :: "int Order list"
    by simp
  have n: "(1::nat) < length ?items" by simp
  from logs r n p2 u2 have l3: "Log_update_failed_for (item_ProductID (?items ! 1))
      ''connection refused'' \<in> set (logs (fst (createBulkOrder cents ?e (Inr ?items) idle)))"
    by blast
  from logs body n k2 have l4: "Log_publish_failed ''broker down''
      \<in> set (logs (fst (createBulkOrder cents ?e (Inr ?items) idle)))"
    by blast
  from single l1 l2 b l3 l4 show ?thesis by simp
qed

section \<open>Upstream failures during validation\<close>

text \<open>
  The bulk handler answers an unreachable inventory with 400, not with a server error.
\<close>

theorem bulk_unreachable_is_400:
  "inv_get unreachable 0 1 = GetErr ''connection refused''
   \<and> createBulkOrder cents unreachable (Inr [\<lparr>item_ProductID = 1, item_Quantity = 2\<rparr>]) idle =
       (idle\<lparr>calls := [Call_getProductInfo 1]\<rparr>,
        Some \<lparr>status = StatusBadRequest,
              body = Text (''Failed to fetch product 1: connection refused'' @ [CHR 0x0A])\<rparr>)
   \<and> \<not> StatusInternalServerError \<le> StatusBadRequest"
  by (simp add: bulk_defs unreachable_def shop_def idle_def product_of_reply_def http_Error_def
        show_int_def show_nat.simps)

text \<open>
  C7, as the code has it. When the fetch of the validation phase fails (the inventory
  service is unreachable or times out, answers with a status other than 200, or sends a
  body that does not decode), the single workflow answers 500 and the bulk workflow
  answers 400; the first failing line of a bulk request is named in the message. In both
  workflows the only calls made are fetches and the table of orders is as it was.
\<close>

theorem fetch_failure_surfaced:
  "(product_of_reply (inv_get e 0 (req_ProductID r)) = Inl err \<longrightarrow>
      createOrder fl e (Inr r) s =
        (s\<lparr>calls := calls s @ [Call_getProductInfo (req_ProductID r)]\<rparr>,
         \<lparr>status = StatusInternalServerError,
          body = Text (''Failed to fetch product info: '' @ err @ [CHR 0x0A])\<rparr>)
    \<and> orders (fst (createOrder fl e (Inr r) s)) = orders s)
   \<and> (k < length items
      \<and> product_of_reply (inv_get e k (item_ProductID (items ! k))) = Inl err \<longrightarrow>
      (\<exists>n resp. n \<le> k
         \<and> createBulkOrder fl e (Inr items) s =
             (s\<lparr>calls := calls s @
                 map (\<lambda>j. Call_getProductInfo (item_ProductID (items ! j))) [0..<Suc n]\<rparr>,
              Some resp)
         \<and> status resp = StatusBadRequest
         \<and> (n = k \<longrightarrow> body resp =
               Text (''Failed to fetch product '' @ show_int (sint (item_ProductID (items ! k)))
                     @ '': '' @ err @ [CHR 0x0A])))
      \<and> orders (fst (createBulkOrder fl e (Inr items) s)) = orders s)"
proof (intro conjI impI)
  assume "product_of_reply (inv_get e 0 (req_ProductID r)) = Inl err"
  then show "createOrder fl e (Inr r) s =
        (s\<lparr>calls := calls s @ [Call_getProductInfo (req_ProductID r)]\<rparr>,
         \<lparr>status = StatusInternalServerError,
          body = Text (''Failed to fetch product info: '' @ err @ [CHR 0x0A])\<rparr>)"
    by (simp add: single_defs http_Error_def)
  then show "orders (fst (createOrder fl e (Inr r) s)) = orders s" by simp
next
  assume a: "k < length items
      \<and> product_of_reply (inv_get e k (item_ProductID (items ! k))) = Inl err"
  then have bad: "\<not> item_ok e (k, items ! k)" by (simp add: item_ok_iff)
  with a have "\<not> all_valid e items" by (auto simp: all_valid_iff)
  from bulk_rejected [OF this, of fl s] obtain n where n: "n < length items"
    and before: "\<forall>j<n. item_ok e (j, items ! j)"
    and run: "createBulkOrder fl e (Inr items) s =
         (s\<lparr>calls := calls s @
               map (\<lambda>j. Call_getProductInfo (item_ProductID (items ! j))) [0..<Suc n]\<rparr>,
          Some (rejection e (n, items ! n)))"
    by blast
  from before bad have nk: "n \<le> k" by (meson not_le_imp_less)
  have msg: "body (rejection e (k, items ! k)) =
       Text (''Failed to fetch product '' @ show_int (sint (item_ProductID (items ! k)))
             @ '': '' @ err @ [CHR 0x0A])"
    using a by (simp add: rejection_def snapshot_def http_Error_def)
  from nk run msg show "\<exists>n resp. n \<le> k
         \<and> createBulkOrder fl e (Inr items) s =
             (s\<lparr>calls := calls s @
                 map (\<lambda>j. Call_getProductInfo (item_ProductID (items ! j))) [0..<Suc n]\<rparr>,
              Some resp)
         \<and> status resp = StatusBadRequest
         \<and> (n = k \<longrightarrow> body resp =
               Text (''Failed to fetch product '' @ show_int (sint (item_ProductID (items ! k)))
                     @ '': '' @ err @ [CHR 0x0A]))"
    by (intro exI [of _ n] exI [of _ "rejection e (n, items ! n)"])
       (auto simp: status_rejection simp del: upt_Suc)
  from run show "orders (fst (createBulkOrder fl e (Inr items) s)) = orders s" by simp
qed

theorem fetch_failure_surfaced_witness:
  "createOrder cents unreachable
       (Inr \<lparr>req_ProductID = 1, req_Quantity = 5, req_UserID = 7\<rparr>) idle =
     (idle\<lparr>calls := [Call_getProductInfo 1]\<rparr>,
      \<lparr>status = StatusInternalServerError,
       body = Text (''Failed to fetch product info: connection refused'' @ [CHR 0x0A])\<rparr>)
   \<and> orders (fst (createBulkOrder cents unreachable
       (Inr [\<lparr>item_ProductID = 1, item_Quantity = 2\<rparr>]) idle)) = []"
proof -
  let ?r = "\<lparr>req_ProductID = 1, req_Quantity = 5, req_UserID = 7\<rparr>"
  let ?items = "[\<lparr>item_ProductID = 1, item_Quantity = 2\<rparr>]"
  have 1: "product_of_reply (inv_get unreachable 0 (req_ProductID ?r)) = Inl ''connection refused''"
    by (simp add: unreachable_def product_of_reply_def)
  have 2: "0 < length ?items
      \<and> product_of_reply (inv_get unreachable 0 (item_ProductID (?items ! 0)))
          = Inl ''connection refused''"
    by (simp add: unreachable_def product_of_reply_def)
  from fetch_failure_surfaced [where e = unreachable and r = ?r and err = "''connection refused''"
      and fl = cents and s = idle and k = 0 and items = ?items] 1 2
  show ?thesis by (simp add: idle_def)
qed

section \<open>The order of the calls\<close>

lemma stock_difference_exact:
  fixes a b :: int64
  assumes "\<not> a <s b" and "0 \<le>s b"
  shows "sint (a - b) = sint a - sint b"
proof -
  from assms have 1: "sint b \<le> sint a" and 2: "0 \<le> sint b"
    by (simp_all add: word_sless_alt word_sle_eq)
  have "sint a < 2 ^ 63" using sint_lt [of a] by simp
  with 1 2 have "- (2 ^ 63) \<le> sint a - sint b" "sint a - sint b < 2 ^ 63" by simp_all
  then have "signed_take_bit 63 (sint a - sint b) = sint a - sint b"
    by (rule signed_take_bit_int_eq_self)
  then show ?thesis by (simp add: sint_word_ariths)
qed

lemma createOrder_calls:
  assumes "orders (fst (createOrder fl e decoded s)) \<noteq> orders s"
  shows "\<exists>r product i t.
      decoded = Inr r
    \<and> product_of_reply (inv_get e 0 (req_ProductID r)) = Inr product
    \<and> \<not> Stock product <s req_Quantity r
    \<and> snd (createOrder fl e decoded s) =
        \<lparr>status = StatusCreated,
         body = OrderJSON \<lparr>ID = i, UserID = req_UserID r, ProductID = req_ProductID r,
           Quantity = req_Quantity r,
           TotalPrice = fmul fl (Price product) (float64 fl (req_Quantity r)),
           Status = ''confirmed'', CreatedAt = t\<rparr>\<rparr>
    \<and> calls (fst (createOrder fl e decoded s)) = calls s @
        [Call_getProductInfo (req_ProductID r),
         Call_insert \<lparr>ip_product_id = req_ProductID r, ip_quantity = req_Quantity r,
           ip_total_price = fmul fl (Price product) (float64 fl (req_Quantity r)),
           ip_status = ''confirmed'', ip_user_id = Some (req_UserID r)\<rparr>,
         Call_updateProductStock (req_ProductID r) product (Stock product - req_Quantity r),
         Call_publishEvent \<lparr>event_type = ''order_created'', order_id = i,
           product_id = req_ProductID r, quantity = req_Quantity r,
           total_price = fmul fl (Price product) (float64 fl (req_Quantity r)),
           timestamp = clock e 0\<rparr>]"
  using assms
  by (auto simp: single_defs order_created_def Let_def
        split: sum.splits prod.splits option.splits pub_reply.splits if_splits)

lemma bulk_persisted:
  assumes "orders (fst (createBulkOrder fl e (Inr items) s)) \<noteq> orders s"
  shows "all_valid e items \<and> db_begin e = None \<and> all_inserted fl e items \<and> db_commit e = None"
proof -
  have v: "all_valid e items"
  proof (rule ccontr)
    assume "\<not> all_valid e items"
    from bulk_rejected [OF this, of fl s] assms show False by auto
  qed
  from bulk_outcomes [OF v, of fl s] assms v show ?thesis
    by (auto split: if_splits)
qed

lemma bulk_calls:
  assumes "all_valid e items" and "db_begin e = None" and "all_inserted fl e items"
    and "db_commit e = None"
  shows "calls (fst (createBulkOrder fl e (Inr items) s)) = calls s
      @ map (\<lambda>k. Call_getProductInfo (item_ProductID (items ! k))) [0..<length items]
      @ [Call_Begin]
      @ map (\<lambda>k. Call_tx_insert (bulk_params fl (validated e (k, items ! k))))
          [0..<length items]
      @ [Call_Commit]
      @ concat (map (\<lambda>k. ext_calls e (validatedItems e items) (k, createdOrders fl e items ! k))
                  [0..<length items])
      @ [Call_Rollback]"
proof -
  have 1: "map get_call (List.enumerate 0 items) =
      map (\<lambda>k. Call_getProductInfo (item_ProductID (items ! k))) [0..<length items]"
    by (subst enumerate_as_map) (simp add: get_call_def comp_def)
  have 2: "map (insert_call fl) (List.enumerate 0 (validatedItems e items)) =
      map (\<lambda>k. Call_tx_insert (bulk_params fl (validated e (k, items ! k)))) [0..<length items]"
    unfolding enumerate_validatedItems by (simp add: insert_call_def comp_def)
  have 3: "map (ext_calls e (validatedItems e items))
             (List.enumerate 0 (createdOrders fl e items)) =
      map (\<lambda>k. ext_calls e (validatedItems e items) (k, createdOrders fl e items ! k))
        [0..<length items]"
    by (subst enumerate_as_map) (simp add: length_createdOrders comp_def)
  show ?thesis
    unfolding bulk_committed [OF assms] by (simp add: 1 2 3)
qed

text \<open>
  C8. Whenever \<^verbatim>\<open>createOrder\<close> has persisted a row, the calls of the invocation are, in
  this order: the fetch, the insert, one \<^verbatim>\<open>updateProductStock\<close> with the fetched snapshot
  and \<open>Stock - Quantity\<close> as new stock, and one \<^verbatim>\<open>publishEvent\<close> of the
  \<^verbatim>\<open>order_created\<close> event. Whenever \<^verbatim>\<open>createBulkOrder\<close> has persisted rows, its calls are:
  the fetches, \<^verbatim>\<open>Begin\<close>, the inserts, \<^verbatim>\<open>Commit\<close>, then for each line in turn one
  \<^verbatim>\<open>updateProductStock\<close> with that line's snapshot and \<open>Stock - Quantity\<close> followed
  by one \<^verbatim>\<open>publishEvent\<close> for that line's order (the id of its row, the line's product
  and quantity, the computed total price), and at the end the deferred
  \<^verbatim>\<open>Rollback\<close>. The subtraction is Go's on \<^verbatim>\<open>int\<close>; it is the exact difference whenever
  the quantity is not negative.
\<close>

theorem side_effects_in_order:
  "(orders (fst (createOrder fl e decoded s)) \<noteq> orders s \<longrightarrow>
      (\<exists>r product i t.
          decoded = Inr r
        \<and> product_of_reply (inv_get e 0 (req_ProductID r)) = Inr product
        \<and> snd (createOrder fl e decoded s) =
            \<lparr>status = StatusCreated,
             body = OrderJSON \<lparr>ID = i, UserID = req_UserID r, ProductID = req_ProductID r,
               Quantity = req_Quantity r,
               TotalPrice = fmul fl (Price product) (float64 fl (req_Quantity r)),
               Status = ''confirmed'', CreatedAt = t\<rparr>\<rparr>
        \<and> calls (fst (createOrder fl e decoded s)) = calls s @
            [Call_getProductInfo (req_ProductID r),
             Call_insert \<lparr>ip_product_id = req_ProductID r, ip_quantity = req_Quantity r,
               ip_total_price = fmul fl (Price product) (float64 fl (req_Quantity r)),
               ip_status = ''confirmed'', ip_user_id = Some (req_UserID r)\<rparr>,
             Call_updateProductStock (req_ProductID r) product
               (Stock product - req_Quantity r),
             Call_publishEvent \<lparr>event_type = ''order_created'', order_id = i,
               product_id = req_ProductID r, quantity = req_Quantity r,
               total_price = fmul fl (Price product) (float64 fl (req_Quantity r)),
               timestamp = clock e 0\<rparr>]
        \<and> (0 \<le>s req_Quantity r \<longrightarrow>
             sint (Stock product - req_Quantity r) =
               sint (Stock product) - sint (req_Quantity r))))
   \<and> (orders (fst (createBulkOrder fl e (Inr items) s)) \<noteq> orders s \<longrightarrow>
      (\<exists>products new.
          length products = length items \<and> length new = length items
        \<and> (\<forall>k<length items.
              product_of_reply (inv_get e k (item_ProductID (items ! k))) = Inr (products ! k)
            \<and> (0 \<le>s item_Quantity (items ! k) \<longrightarrow>
                 sint (Stock (products ! k) - item_Quantity (items ! k)) =
                   sint (Stock (products ! k)) - sint (item_Quantity (items ! k))))
        \<and> orders (fst (createBulkOrder fl e (Inr items) s)) = orders s @ new
        \<and> calls (fst (createBulkOrder fl e (Inr items) s)) = calls s
            @ map (\<lambda>k. Call_getProductInfo (item_ProductID (items ! k))) [0..<length items]
            @ [Call_Begin]
            @ map (\<lambda>k. Call_tx_insert
                     \<lparr>ip_product_id = item_ProductID (items ! k),
                      ip_quantity = item_Quantity (items ! k),
                      ip_total_price = fmul fl (Price (products ! k))
                                         (float64 fl (item_Quantity (items ! k))),
                      ip_status = ''confirmed'', ip_user_id = None\<rparr>) [0..<length items]
            @ [Call_Commit]
            @ concat (map (\<lambda>k.
                     [Call_updateProductStock (item_ProductID (items ! k)) (products ! k)
                        (Stock (products ! k) - item_Quantity (items ! k)),
                      Call_publishEvent
                        \<lparr>event_type = ''order_created'', order_id = ID (new ! k),
                         product_id = item_ProductID (items ! k),
                         quantity = item_Quantity (items ! k),
                         total_price = fmul fl (Price (products ! k))
                                         (float64 fl (item_Quantity (items ! k))),
                         timestamp = clock e k\<rparr>]) [0..<length items])
            @ [Call_Rollback]))"
proof (intro conjI impI)
  assume "orders (fst (createOrder fl e decoded s)) \<noteq> orders s"
  from createOrder_calls [OF this] obtain r product i t where
    f: "decoded = Inr r" "product_of_reply (inv_get e 0 (req_ProductID r)) = Inr product"
      "\<not> Stock product <s req_Quantity r"
      "snd (createOrder fl e decoded s) =
            \<lparr>status = StatusCreated,
             body = OrderJSON \<lparr>ID = i, UserID = req_UserID r, ProductID = req_ProductID r,
               Quantity = req_Quantity r,
               TotalPrice = fmul fl (Price product) (float64 fl (req_Quantity r)),
               Status = ''confirmed'', CreatedAt = t\<rparr>\<rparr>"
      "calls (fst (createOrder fl e decoded s)) = calls s @
            [Call_getProductInfo (req_ProductID r),
             Call_insert \<lparr>ip_product_id = req_ProductID r, ip_quantity = req_Quantity r,
               ip_total_price = fmul fl (Price product) (float64 fl (req_Quantity r)),
               ip_status = ''confirmed'', ip_user_id = Some (req_UserID r)\<rparr>,
             Call_updateProductStock (req_ProductID r) product
               (Stock product - req_Quantity r),
             Call_publishEvent \<lparr>event_type = ''order_created'', order_id = i,
               product_id = req_ProductID r, quantity = req_Quantity r,
               total_price = fmul fl (Price product) (float64 fl (req_Quantity r)),
               timestamp = clock e 0\<rparr>]"
    by blast
  have "0 \<le>s req_Quantity r \<longrightarrow>
             sint (Stock product - req_Quantity r) =
               sint (Stock product) - sint (req_Quantity r)"
    using f(3) by (simp add: stock_difference_exact)
  with f show "\<exists>r product i t.
          decoded = Inr r
        \<and> product_of_reply (inv_get e 0 (req_ProductID r)) = Inr product
        \<and> snd (createOrder fl e decoded s) =
            \<lparr>status = StatusCreated,
             body = OrderJSON \<lparr>ID = i, UserID = req_UserID r, ProductID = req_ProductID r,
               Quantity = req_Quantity r,
               TotalPrice = fmul fl (Price product) (float64 fl (req_Quantity r)),
               Status = ''confirmed'', CreatedAt = t\<rparr>\<rparr>
        \<and> calls (fst (createOrder fl e decoded s)) = calls s @
            [Call_getProductInfo (req_ProductID r),
             Call_insert \<lparr>ip_product_id = req_ProductID r, ip_quantity = req_Quantity r,
               ip_total_price = fmul fl (Price product) (float64 fl (req_Quantity r)),
               ip_status = ''confirmed'', ip_user_id = Some (req_UserID r)\<rparr>,
             Call_updateProductStock (req_ProductID r) product
               (Stock product - req_Quantity r),
             Call_publishEvent \<lparr>event_type = ''order_created'', order_id = i,
               product_id = req_ProductID r, quantity = req_Quantity r,
               total_price = fmul fl (Price product) (float64 fl (req_Quantity r)),
               timestamp = clock e 0\<rparr>]
        \<and> (0 \<le>s req_Quantity r \<longrightarrow>
             sint (Stock product - req_Quantity r) =
               sint (Stock product) - sint (req_Quantity r))"
    by blast
next
  assume "orders (fst (createBulkOrder fl e (Inr items) s)) \<noteq> orders s"
  from bulk_persisted [OF this] have c: "all_valid e items" "db_begin e = None"
    "all_inserted fl e items" "db_commit e = None"
    by simp_all
  let ?products = "map (\<lambda>k. v_Product (validated e (k, items ! k))) [0..<length items]"
  let ?new = "insertedRows fl e items"
  let ?created = "createdOrders fl e items"
  have ok: "product_of_reply (inv_get e k (item_ProductID (items ! k))) = Inr (?products ! k)
        \<and> \<not> Stock (?products ! k) <s item_Quantity (items ! k)"
    if "k < length items" for k
  proof -
    from c(1) that have "item_ok e (k, items ! k)" by (simp add: all_valid_iff)
    with that show ?thesis
      by (auto simp: item_ok_iff validated_def snapshot_def split: sum.splits)
  qed
  have vs: "validatedItems e items ! k =
      \<lparr>v_ProductID = item_ProductID (items ! k), v_Quantity = item_Quantity (items ! k),
       v_Product = ?products ! k\<rparr>"
    if "k < length items" for k
    using that by (simp add: validatedItems_as_map validated_def)
  have ins: "map (\<lambda>k. Call_tx_insert (bulk_params fl (validated e (k, items ! k))))
          [0..<length items] =
      map (\<lambda>k. Call_tx_insert
                     \<lparr>ip_product_id = item_ProductID (items ! k),
                      ip_quantity = item_Quantity (items ! k),
                      ip_total_price = fmul fl (Price (?products ! k))
                                         (float64 fl (item_Quantity (items ! k))),
                      ip_status = ''confirmed'', ip_user_id = None\<rparr>) [0..<length items]"
    by (rule map_cong [OF refl]) (simp add: bulk_params_def validated_def)
  have ev: "order_created e k (?created ! k) =
      \<lparr>event_type = ''order_created'', order_id = ID (?new ! k),
       product_id = item_ProductID (items ! k), quantity = item_Quantity (items ! k),
       total_price = fmul fl (Price (?products ! k)) (float64 fl (item_Quantity (items ! k))),
       timestamp = clock e k\<rparr>"
    if "k < length items" for k
    using that
    by (simp add: order_created_def createdOrders_nth insertedRows_nth created_def
          inserted_def db_row_def validated_def split: prod.splits)
  have ext: "map (\<lambda>k. ext_calls e (validatedItems e items) (k, ?created ! k))
               [0..<length items] =
      map (\<lambda>k. [Call_updateProductStock (item_ProductID (items ! k)) (?products ! k)
                        (Stock (?products ! k) - item_Quantity (items ! k)),
                 Call_publishEvent
                   \<lparr>event_type = ''order_created'', order_id = ID (?new ! k),
                    product_id = item_ProductID (items ! k),
                    quantity = item_Quantity (items ! k),
                    total_price = fmul fl (Price (?products ! k))
                                    (float64 fl (item_Quantity (items ! k))),
                    timestamp = clock e k\<rparr>]) [0..<length items]"
    by (rule map_cong [OF refl]) (simp add: ext_calls_def vs ev del: nth_map)
  have o: "orders (fst (createBulkOrder fl e (Inr items) s)) = orders s @ ?new"
    by (simp add: bulk_committed [OF c])
  have exact: "\<forall>k<length items.
              product_of_reply (inv_get e k (item_ProductID (items ! k))) = Inr (?products ! k)
            \<and> (0 \<le>s item_Quantity (items ! k) \<longrightarrow>
                 sint (Stock (?products ! k) - item_Quantity (items ! k)) =
                   sint (Stock (?products ! k)) - sint (item_Quantity (items ! k)))"
    using ok by (auto simp: stock_difference_exact simp del: nth_map)
  show "\<exists>products new.
          length products = length items \<and> length new = length items
        \<and> (\<forall>k<length items.
              product_of_reply (inv_get e k (item_ProductID (items ! k))) = Inr (products ! k)
            \<and> (0 \<le>s item_Quantity (items ! k) \<longrightarrow>
                 sint (Stock (products ! k) - item_Quantity (items ! k)) =
                   sint (Stock (products ! k)) - sint (item_Quantity (items ! k))))
        \<and> orders (fst (createBulkOrder fl e (Inr items) s)) = orders s @ new
        \<and> calls (fst (createBulkOrder fl e (Inr items) s)) = calls s
            @ map (\<lambda>k. Call_getProductInfo (item_ProductID (items ! k))) [0..<length items]
            @ [Call_Begin]
            @ map (\<lambda>k. Call_tx_insert
                     \<lparr>ip_product_id = item_ProductID (items ! k),
                      ip_quantity = item_Quantity (items ! k),
                      ip_total_price = fmul fl (Price (products ! k))
                                         (float64 fl (item_Quantity (items ! k))),
                      ip_status = ''confirmed'', ip_user_id = None\<rparr>) [0..<length items]
            @ [Call_Commit]
            @ concat (map (\<lambda>k.
                     [Call_updateProductStock (item_ProductID (items ! k)) (products ! k)
                        (Stock (products ! k) - item_Quantity (items ! k)),
                      Call_publishEvent
                        \<lparr>event_type = ''order_created'', order_id = ID (new ! k),
                         product_id = item_ProductID (items ! k),
                         quantity = item_Quantity (items ! k),
                         total_price = fmul fl (Price (products ! k))
                                         (float64 fl (item_Quantity (items ! k))),
                         timestamp = clock e k\<rparr>]) [0..<length items])
            @ [Call_Rollback]"
    apply (rule exI [of _ ?products], rule exI [of _ ?new])
    apply (intro conjI)
        apply simp
       apply (simp add: length_insertedRows)
      apply (rule exact)
     apply (rule o)
    apply (simp only: bulk_calls [OF c] ins ext)
    done
qed

theorem side_effects_in_order_witness:
  "calls (fst (createOrder cents shop
       (Inr \<lparr>req_ProductID = 1, req_Quantity = 5, req_UserID = 7\<rparr>) idle)) =
     [Call_getProductInfo 1,
      Call_insert \<lparr>ip_product_id = 1, ip_quantity = 5, ip_total_price = 50000,
        ip_status = ''confirmed'', ip_user_id = Some 7\<rparr>,
      Call_updateProductStock 1 widget 45,
      Call_publishEvent \<lparr>event_type = ''order_created'', order_id = 1, product_id = 1,
        quantity = 5, total_price = 50000, timestamp = 0\<rparr>]
   \<and> calls (fst (createBulkOrder cents shop
       (Inr [\<lparr>item_ProductID = 2, item_Quantity = 10\<rparr>]) idle)) =
     [Call_getProductInfo 2,
      Call_Begin,
      Call_tx_insert \<lparr>ip_product_id = 2, ip_quantity = 10, ip_total_price = 25500,
        ip_status = ''confirmed'', ip_user_id = None\<rparr>,
      Call_Commit,
      Call_updateProductStock 2 gadget 0,
      Call_publishEvent \<lparr>event_type = ''order_created'', order_id = 1, product_id = 2,
        quantity = 10, total_price = 25500, timestamp = 0\<rparr>,
      Call_Rollback]"
proof -
  let ?r = "\<lparr>req_ProductID = 1, req_Quantity = 5, req_UserID = 7\<rparr>"
  let ?d = "Inr ?r :: string + orderReq"
  let ?items = "[\<lparr>item_ProductID = 2, item_Quantity = 10\<rparr>]"
  let ?o = "\<lparr>ID = 1, UserID = 7, ProductID = 1, Quantity = 5, TotalPrice = 50000::int,
             Status = ''confirmed'', CreatedAt = 0\<rparr>"
  let ?b = "\<lparr>ID = 1, UserID = 0, ProductID = 2, Quantity = 10, TotalPrice = 25500::int,
             Status = ''confirmed'', CreatedAt = 0\<rparr>"
  have run1: "snd (createOrder cents shop ?d idle) = \<lparr>status = StatusCreated, body = OrderJSON ?o\<rparr>"
    "orders (fst (createOrder cents shop ?d idle)) = [?o]"
    by (simp_all add: single_defs shop_def cents_def widget_def idle_def product_of_reply_def
          error_of_reply_def db_row_def Let_def)
  have run2: "orders (fst (createBulkOrder cents shop (Inr ?items) idle)) = [?b]"
    by (simp add: bulk_defs shop_def cents_def gadget_def idle_def product_of_reply_def
          error_of_reply_def db_row_def Let_def)
  have ch1: "orders (fst (createOrder cents shop ?d idle)) \<noteq> orders idle"
    unfolding run1 by (simp add: idle_def)
  have ch2: "orders (fst (createBulkOrder cents shop (Inr ?items) idle)) \<noteq> orders idle"
    unfolding run2 by (simp add: idle_def)
  note inst = side_effects_in_order [where fl = cents and e = shop and decoded = ?d and s = idle
      and items = ?items]
  from inst ch1 obtain r product i t where
    d: "?d = Inr r" and p: "product_of_reply (inv_get shop 0 (req_ProductID r)) = Inr product"
    and a: "snd (createOrder cents shop ?d idle) =
            \<lparr>status = StatusCreated,
             body = OrderJSON \<lparr>ID = i, UserID = req_UserID r, ProductID = req_ProductID r,
               Quantity = req_Quantity r,
               TotalPrice = fmul cents (Price product) (float64 cents (req_Quantity r)),
               Status = ''confirmed'', CreatedAt = t\<rparr>\<rparr>"
    and c: "calls (fst (createOrder cents shop ?d idle)) = calls idle @
            [Call_getProductInfo (req_ProductID r),
             Call_insert \<lparr>ip_product_id = req_ProductID r, ip_quantity = req_Quantity r,
               ip_total_price = fmul cents (Price product) (float64 cents (req_Quantity r)),
               ip_status = ''confirmed'', ip_user_id = Some (req_UserID r)\<rparr>,
             Call_updateProductStock (req_ProductID r) product
               (Stock product - req_Quantity r),
             Call_publishEvent \<lparr>event_type = ''order_created'', order_id = i,
               product_id = req_ProductID r, quantity = req_Quantity r,
               total_price = fmul cents (Price product) (float64 cents (req_Quantity r)),
               timestamp = clock shop 0\<rparr>]"
    by blast
  from d have r: "r = ?r" by simp
  from p have w: "product = widget" by (simp add: r shop_def product_of_reply_def)
  from a run1(1) have i: "i = 1" by simp
  have single: "calls (fst (createOrder cents shop ?d idle)) =
     [Call_getProductInfo 1,
      Call_insert \<lparr>ip_product_id = 1, ip_quantity = 5, ip_total_price = 50000,
        ip_status = ''confirmed'', ip_user_id = Some 7\<rparr>,
      Call_updateProductStock 1 widget 45,
      Call_publishEvent \<lparr>event_type = ''order_created'', order_id = 1, product_id = 1,
        quantity = 5, total_price = 50000, timestamp = 0\<rparr>]"
    unfolding c by (simp add: r w i idle_def cents_def widget_def shop_def)
  from inst ch2 obtain products new where
    lp: "length products = length ?items"
    and ps: "\<forall>k<length ?items.
              product_of_reply (inv_get shop k (item_ProductID (?items ! k))) = Inr (products ! k)
            \<and> (0 \<le>s item_Quantity (?items ! k) \<longrightarrow>
                 sint (Stock (products ! k) - item_Quantity (?items ! k)) =
                   sint (Stock (products ! k)) - sint (item_Quantity (?items ! k)))"
    and o: "orders (fst (createBulkOrder cents shop (Inr ?items) idle)) = orders idle @ new"
    and cb: "calls (fst (createBulkOrder cents shop (Inr ?items) idle)) = calls idle
            @ map (\<lambda>k. Call_getProductInfo (item_ProductID (?items ! k))) [0..<length ?items]
            @ [Call_Begin]
            @ map (\<lambda>k. Call_tx_insert
                     \<lparr>ip_product_id = item_ProductID (?items ! k),
                      ip_quantity = item_Quantity (?items ! k),
                      ip_total_price = fmul cents (Price (products ! k))
                                         (float64 cents (item_Quantity (?items ! k))),
                      ip_status = ''confirmed'', ip_user_id = None\<rparr>) [0..<length ?items]
            @ [Call_Commit]
            @ concat (map (\<lambda>k.
                     [Call_updateProductStock (item_ProductID (?items ! k)) (products ! k)
                        (Stock (products ! k) - item_Quantity (?items ! k)),
                      Call_publishEvent
                        \<lparr>event_type = ''order_created'', order_id = ID (new ! k),
                         product_id = item_ProductID (?items ! k),
                         quantity = item_Quantity (?items ! k),
                         total_price = fmul cents (Price (products ! k))
                                         (float64 cents (item_Quantity (?items ! k))),
                         timestamp = clock shop k\<rparr>]) [0..<length ?items])
            @ [Call_Rollback]"
    by blast
  from ps have g: "products ! 0 = gadget" by (simp add: shop_def product_of_reply_def)
  from o have n: "new = [?b]" unfolding run2 by (simp add: idle_def)
  have bulk: "calls (fst (createBulkOrder cents shop (Inr ?items) idle)) =
     [Call_getProductInfo 2,
      Call_Begin,
      Call_tx_insert \<lparr>ip_product_id = 2, ip_quantity = 10, ip_total_price = 25500,
        ip_status = ''confirmed'', ip_user_id = None\<rparr>,
      Call_Commit,
      Call_updateProductStock 2 gadget 0,
      Call_publishEvent \<lparr>event_type = ''order_created'', order_id = 1, product_id = 2,
        quantity = 10, total_price = 25500, timestamp = 0\<rparr>,
      Call_Rollback]"
    unfolding cb by (simp add: g n idle_def cents_def gadget_def shop_def)
  from single bulk show ?thesis by simp
qed

section \<open>Quantities\<close>

text \<open>
  A request for \<open>-3\<close> widgets is accepted: the stock, 50, is not below \<open>-3\<close>, and
  nothing else looks at the quantity. The row is written with quantity \<open>-3\<close>.
\<close>

theorem negative_quantity_persisted:
  "createOrder cents shop (Inr \<lparr>req_ProductID = 1, req_Quantity = - 3, req_UserID = 7\<rparr>) idle =
     (\<lparr>orders = [\<lparr>ID = 1, UserID = 7, ProductID = 1, Quantity = - 3, TotalPrice = - 30000,
                    Status = ''confirmed'', CreatedAt = 0\<rparr>],
       tx = None,
       calls = [Call_getProductInfo 1,
                Call_insert \<lparr>ip_product_id = 1, ip_quantity = - 3, ip_total_price = - 30000,
                  ip_status = ''confirmed'', ip_user_id = Some 7\<rparr>,
                Call_updateProductStock 1 widget 53,
                Call_publishEvent \<lparr>event_type = ''order_created'', order_id = 1,
                  product_id = 1, quantity = - 3, total_price = - 30000, timestamp = 0\<rparr>],
       logs = [Log_published \<lparr>event_type = ''order_created'', order_id = 1,
                  product_id = 1, quantity = - 3, total_price = - 30000, timestamp = 0\<rparr>]\<rparr>,
      \<lparr>status = StatusCreated,
       body = OrderJSON \<lparr>ID = 1, UserID = 7, ProductID = 1, Quantity = - 3,
                TotalPrice = - 30000, Status = ''confirmed'', CreatedAt = 0\<rparr>\<rparr>)
   \<and> \<not> (0 <s (- 3 :: int64))"
  by (simp add: single_defs shop_def cents_def widget_def idle_def product_of_reply_def
        error_of_reply_def db_row_def order_created_def Let_def word_sless_alt)

text \<open>
  C9, as the code has it. The workflows never look at the sign of the quantity: the only
  check is that the snapshot's stock is not below it. So every row an invocation adds has
  a quantity that is at most the stock of the snapshot fetched for it, and a single order
  for zero or fewer items of a product whose stock is not negative is persisted, with
  that quantity, as soon as the fetch and the insert succeed.
\<close>

theorem quantity_at_most_stock:
  "(\<exists>new. orders (fst (createOrder fl e decoded s)) = orders s @ new
      \<and> (\<forall>order\<in>set new. \<exists>r product.
            decoded = Inr r
          \<and> product_of_reply (inv_get e 0 (req_ProductID r)) = Inr product
          \<and> Quantity order = req_Quantity r
          \<and> \<not> Stock product <s Quantity order))
   \<and> (\<exists>new. orders (fst (createBulkOrder fl e (Inr items) s)) = orders s @ new
      \<and> (\<forall>k<length new. \<exists>product.
            product_of_reply (inv_get e k (item_ProductID (items ! k))) = Inr product
          \<and> Quantity (new ! k) = item_Quantity (items ! k)
          \<and> \<not> Stock product <s Quantity (new ! k)))
   \<and> (req_Quantity r \<le>s 0 \<and> 0 \<le>s Stock product
      \<and> product_of_reply (inv_get e 0 (req_ProductID r)) = Inr product
      \<and> db_insert e 0
           \<lparr>ip_product_id = req_ProductID r, ip_quantity = req_Quantity r,
            ip_total_price = fmul fl (Price product) (float64 fl (req_Quantity r)),
            ip_status = ''confirmed'', ip_user_id = Some (req_UserID r)\<rparr> = Inr (i, t)
      \<longrightarrow> status (snd (createOrder fl e (Inr r) s)) = StatusCreated
        \<and> orders (fst (createOrder fl e (Inr r) s)) = orders s @
             [\<lparr>ID = i, UserID = req_UserID r, ProductID = req_ProductID r,
               Quantity = req_Quantity r,
               TotalPrice = decimal fl (fmul fl (Price product) (float64 fl (req_Quantity r))),
               Status = ''confirmed'', CreatedAt = t\<rparr>])"
proof (intro conjI impI)
  from createOrder_orders [of fl e decoded s]
  show "\<exists>new. orders (fst (createOrder fl e decoded s)) = orders s @ new
      \<and> (\<forall>order\<in>set new. \<exists>r product.
            decoded = Inr r
          \<and> product_of_reply (inv_get e 0 (req_ProductID r)) = Inr product
          \<and> Quantity order = req_Quantity r
          \<and> \<not> Stock product <s Quantity order)"
  proof
    assume "orders (fst (createOrder fl e decoded s)) = orders s"
    then show ?thesis by (intro exI [of _ "[]"]) simp
  next
    assume "\<exists>r product i t. decoded = Inr r
        \<and> product_of_reply (inv_get e 0 (req_ProductID r)) = Inr product
        \<and> \<not> Stock product <s req_Quantity r
        \<and> orders (fst (createOrder fl e decoded s)) = orders s @
             [\<lparr>ID = i, UserID = req_UserID r, ProductID = req_ProductID r,
               Quantity = req_Quantity r,
               TotalPrice = decimal fl (fmul fl (Price product) (float64 fl (req_Quantity r))),
               Status = ''confirmed'', CreatedAt = t\<rparr>]"
    then obtain r product i t where "decoded = Inr r"
      "product_of_reply (inv_get e 0 (req_ProductID r)) = Inr product"
      "\<not> Stock product <s req_Quantity r"
      "orders (fst (createOrder fl e decoded s)) = orders s @
             [\<lparr>ID = i, UserID = req_UserID r, ProductID = req_ProductID r,
               Quantity = req_Quantity r,
               TotalPrice = decimal fl (fmul fl (Price product) (float64 fl (req_Quantity r))),
               Status = ''confirmed'', CreatedAt = t\<rparr>]"
      by blast
    then show ?thesis
      by (intro exI [of _ "[\<lparr>ID = i, UserID = req_UserID r, ProductID = req_ProductID r,
               Quantity = req_Quantity r,
               TotalPrice = decimal fl (fmul fl (Price product) (float64 fl (req_Quantity r))),
               Status = ''confirmed'', CreatedAt = t\<rparr>]"]) simp
  qed
next
  from bulk_orders [of fl e items s]
  show "\<exists>new. orders (fst (createBulkOrder fl e (Inr items) s)) = orders s @ new
      \<and> (\<forall>k<length new. \<exists>product.
            product_of_reply (inv_get e k (item_ProductID (items ! k))) = Inr product
          \<and> Quantity (new ! k) = item_Quantity (items ! k)
          \<and> \<not> Stock product <s Quantity (new ! k))"
  proof
    assume "orders (fst (createBulkOrder fl e (Inr items) s)) = orders s"
    then show ?thesis by (intro exI [of _ "[]"]) simp
  next
    assume a: "all_valid e items \<and> all_inserted fl e items
     \<and> orders (fst (createBulkOrder fl e (Inr items) s)) = orders s @ insertedRows fl e items"
    have "\<exists>product.
            product_of_reply (inv_get e k (item_ProductID (items ! k))) = Inr product
          \<and> Quantity (insertedRows fl e items ! k) = item_Quantity (items ! k)
          \<and> \<not> Stock product <s Quantity (insertedRows fl e items ! k)"
      if "k < length items" for k
      using insertedRows_explicit [of e items fl k] a that by force
    with a show ?thesis
      by (intro exI [of _ "insertedRows fl e items"]) (simp add: length_insertedRows)
  qed
next
  assume a: "req_Quantity r \<le>s 0 \<and> 0 \<le>s Stock product
      \<and> product_of_reply (inv_get e 0 (req_ProductID r)) = Inr product
      \<and> db_insert e 0
           \<lparr>ip_product_id = req_ProductID r, ip_quantity = req_Quantity r,
            ip_total_price = fmul fl (Price product) (float64 fl (req_Quantity r)),
            ip_status = ''confirmed'', ip_user_id = Some (req_UserID r)\<rparr> = Inr (i, t)"
  then have "\<not> Stock product <s req_Quantity r"
    by (simp add: word_sless_alt word_sle_eq)
  with a show "status (snd (createOrder fl e (Inr r) s)) = StatusCreated"
    by (simp add: single_defs Let_def split: option.splits pub_reply.splits)
  from a \<open>\<not> Stock product <s req_Quantity r\<close>
  show "orders (fst (createOrder fl e (Inr r) s)) = orders s @
             [\<lparr>ID = i, UserID = req_UserID r, ProductID = req_ProductID r,
               Quantity = req_Quantity r,
               TotalPrice = decimal fl (fmul fl (Price product) (float64 fl (req_Quantity r))),
               Status = ''confirmed'', CreatedAt = t\<rparr>]"
    by (simp add: single_defs db_row_def Let_def split: option.splits pub_reply.splits)
qed

theorem quantity_at_most_stock_witness:
  "status (snd (createOrder cents shop
       (Inr \<lparr>req_ProductID = 1, req_Quantity = 0, req_UserID = 7\<rparr>) idle)) = StatusCreated
   \<and> orders (fst (createOrder cents shop
       (Inr \<lparr>req_ProductID = 1, req_Quantity = 0, req_UserID = 7\<rparr>) idle)) =
     [\<lparr>ID = 1, UserID = 7, ProductID = 1, Quantity = 0, TotalPrice = 0,
       Status = ''confirmed'', CreatedAt = 0\<rparr>]"
proof -
  let ?r = "\<lparr>req_ProductID = 1, req_Quantity = 0, req_UserID = 7\<rparr>"
  have h: "req_Quantity ?r \<le>s 0 \<and> 0 \<le>s Stock widget
      \<and> product_of_reply (inv_get shop 0 (req_ProductID ?r)) = Inr widget
      \<and> db_insert shop 0
           \<lparr>ip_product_id = req_ProductID ?r, ip_quantity = req_Quantity ?r,
            ip_total_price = fmul cents (Price widget) (float64 cents (req_Quantity ?r)),
            ip_status = ''confirmed'', ip_user_id = Some (req_UserID ?r)\<rparr> = Inr (1, 0)"
    by (simp add: shop_def widget_def product_of_reply_def word_sle_eq)
  from quantity_at_most_stock [where fl = cents and e = shop and r = ?r and product = widget
      and i = 1 and t = 0 and s = idle and decoded = "Inr ?r" and items = "[]"] h
  show ?thesis by (simp add: idle_def cents_def widget_def)
qed

section \<open>The stock update, end to end\<close>

lemma inventory_put_ok:
  assumes "error_of_reply (snd (inventory_put exec_err products productID d)) = None"
  shows "exec_err = None \<and> (\<exists>row\<in>set products. inv_ID row = sint productID)
       \<and> fst (inventory_put exec_err products productID d) =
           map (\<lambda>row. if inv_ID row = sint productID
                        then row\<lparr>inv_Name := name d, inv_Description := description d,
                                 inv_Price := price d, inv_Stock := stock d\<rparr>
                        else row) products"
proof -
  have "length (filter (\<lambda>row. inv_ID row = sint productID) products) \<noteq> 0
        \<longleftrightarrow> (\<exists>row\<in>set products. inv_ID row = sint productID)"
    by (simp add: filter_empty_conv)
  with assms show ?thesis
    by (auto simp: inventory_put_def updateProduct_def sql_update_def decode_updateData_def
          error_of_reply_def inv_Error_def split: option.splits if_splits)
qed

lemma updateProductStock_sends:
  "updateProductStock send productID product newStock s =
     ((error_of_reply (snd (send productID
         \<lparr>name = Name product, description = '''', price = Price product,
          stock = newStock\<rparr>)),
       fst (send productID
         \<lparr>name = Name product, description = '''', price = Price product,
          stock = newStock\<rparr>)),
      called (Call_updateProductStock productID product newStock) s)"
  by (simp add: updateProductStock_def update_data_def split: prod.splits)

text \<open>
  C10. \<^verbatim>\<open>updateProductStock\<close> makes one request, and its body has the four keys \<^verbatim>\<open>name\<close>,
  \<^verbatim>\<open>description\<close>, \<^verbatim>\<open>price\<close> and \<^verbatim>\<open>stock\<close>, with the name and the price of the snapshot
  it was given, the new stock, and the empty string as description: run against a
  transport that records the request and answers with any \<open>reply\<close>, it leaves exactly that
  record behind. Run against the inventory service with the table \<open>products\<close>, when it
  returns no error the table it leaves behind is \<open>products\<close> with all four columns of the
  product's row set to what was sent: the description stored before is gone. The other
  rows are as they were.
\<close>

theorem stock_update_clears_description:
  "updateProductStock (\<lambda>pid d. ((pid, d), reply)) productID product newStock s =
     ((error_of_reply reply,
       (productID,
        \<lparr>name = Name product, description = '''', price = Price product,
         stock = newStock\<rparr>)),
      called (Call_updateProductStock productID product newStock) s)
   \<and> (fst (updateProductStock (inventory_put exec_err products) productID product newStock s) =
        (None, products')
      \<longrightarrow> (\<exists>row\<in>set products. inv_ID row = sint productID)
        \<and> products' =
            map (\<lambda>row. if inv_ID row = sint productID
                         then row\<lparr>inv_Name := Name product, inv_Description := '''',
                                  inv_Price := Price product, inv_Stock := newStock\<rparr>
                         else row) products
        \<and> (\<forall>row\<in>set products'.
              inv_ID row = sint productID \<longrightarrow> inv_Description row = ''''))"
proof (intro conjI impI)
  show "updateProductStock (\<lambda>pid d. ((pid, d), reply)) productID product newStock s =
     ((error_of_reply reply,
       (productID,
        \<lparr>name = Name product, description = '''', price = Price product,
         stock = newStock\<rparr>)),
      called (Call_updateProductStock productID product newStock) s)"
    by (simp add: updateProductStock_sends)
next
  let ?d = "\<lparr>name = Name product, description = '''', price = Price product,
             stock = newStock\<rparr>"
  assume "fst (updateProductStock (inventory_put exec_err products) productID product
                 newStock s) = (None, products')"
  then have none: "error_of_reply (snd (inventory_put exec_err products productID ?d)) = None"
    and left: "products' = fst (inventory_put exec_err products productID ?d)"
    by (simp_all add: updateProductStock_sends)
  note ok = inventory_put_ok [OF none]
  from ok show found: "\<exists>row\<in>set products. inv_ID row = sint productID"
    by blast
  from ok have "fst (inventory_put exec_err products productID ?d) =
           map (\<lambda>row. if inv_ID row = sint productID
                        then row\<lparr>inv_Name := name ?d, inv_Description := description ?d,
                                 inv_Price := price ?d, inv_Stock := stock ?d\<rparr>
                        else row) products"
    by blast
  also have "\<dots> = map (\<lambda>row. if inv_ID row = sint productID
                         then row\<lparr>inv_Name := Name product, inv_Description := '''',
                                  inv_Price := Price product, inv_Stock := newStock\<rparr>
                         else row) products"
    by (simp cong: if_cong)
  finally have tbl:
    "products' =
            map (\<lambda>row. if inv_ID row = sint productID
                         then row\<lparr>inv_Name := Name product, inv_Description := '''',
                                  inv_Price := Price product, inv_Stock := newStock\<rparr>
                         else row) products"
    unfolding left .
  from tbl show "products' =
            map (\<lambda>row. if inv_ID row = sint productID
                         then row\<lparr>inv_Name := Name product, inv_Description := '''',
                                  inv_Price := Price product, inv_Stock := newStock\<rparr>
                         else row) products" .
  show "\<forall>row\<in>set products'. inv_ID row = sint productID \<longrightarrow> inv_Description row = ''''"
    unfolding tbl by auto
qed

theorem stock_update_clears_description_witness:
  "fst (updateProductStock (inventory_put None shelf) 1 widget 45 idle) =
     (None,
      [\<lparr>inv_ID = 1, inv_Name = ''Widget'', inv_Description = '''',
        inv_Price = 10000, inv_Stock = 45, inv_CreatedAt = 0\<rparr>,
       \<lparr>inv_ID = 2, inv_Name = ''Gadget'', inv_Description = ''A small gadget'',
        inv_Price = 2550, inv_Stock = 10, inv_CreatedAt = 0\<rparr>])
   \<and> inv_Description (shelf ! 0) = ''A fine widget''"
proof -
  obtain err products' where
    run: "fst (updateProductStock (inventory_put None shelf) 1 widget 45 idle) =
            (err, products')"
    by (cases "fst (updateProductStock (inventory_put None shelf) 1 widget 45 idle)")
  have "fst (fst (updateProductStock (inventory_put None shelf) 1 widget 45 idle)) = None"
    by (simp add: updateProductStock_def inventory_put_def updateProduct_def sql_update_def
          decode_updateData_def update_data_def shelf_def error_of_reply_def
          split: prod.splits)
  with run have ok: "fst (updateProductStock (inventory_put None shelf) 1 widget 45 idle) =
            (None, products')"
    by simp
  from stock_update_clears_description [where exec_err = None and products = shelf
      and productID = 1 and product = widget and newStock = 45 and s = idle
      and products' = products'] ok
  have "products' =
            map (\<lambda>row. if inv_ID row = sint (1 :: int64)
                         then row\<lparr>inv_Name := Name widget, inv_Description := '''',
                                  inv_Price := Price widget, inv_Stock := 45\<rparr>
                         else row) shelf"
    by blast
  with ok show ?thesis by (simp add: shelf_def widget_def)
qed

end
